theory Spec2Isabelle
  imports Main
begin

section \<open>JSON values and JavaScript objects\<close>

text \<open>
  Request bodies, operation payloads and conflict snapshots are JSON. An object is a list
  of bindings in which a later binding of a key overrides an earlier one, so that the
  spread \<open>{...d, k: v}\<close> is \<open>assign k v d\<close> and the rest pattern
  \<open>const {id, version, ...rest} = d\<close> is \<open>omit [''id'', ''version''] d\<close>.
  A property that is not bound reads as \<open>undefined\<close>, here \<open>None\<close>.
  Numbers are integers: the only numeric column of the schema is \<open>version\<close>.
\<close>

datatype json = JNull | JBool bool | JNum int | JStr string
  | JArr "json list" | JObj "(string \<times> json) list"

type_synonym obj = "(string \<times> json) list"

definition jget :: "string \<Rightarrow> obj \<Rightarrow> json option" where
  "jget k d = map_of (rev d) k"

definition omit :: "string list \<Rightarrow> obj \<Rightarrow> obj" where
  "omit ks d = filter (\<lambda>kv. fst kv \<notin> set ks) d"

definition assign :: "string \<Rightarrow> 'v \<Rightarrow> (string \<times> 'v) list \<Rightarrow> (string \<times> 'v) list" where
  "assign k v d = filter (\<lambda>kv. fst kv \<noteq> k) d @ [(k, v)]"

text \<open>JavaScript truthiness, as tested by \<open>!id\<close>.\<close>

fun truthy :: "json option \<Rightarrow> bool" where
  "truthy None = False"
| "truthy (Some JNull) = False"
| "truthy (Some (JBool b)) = b"
| "truthy (Some (JNum n)) = (n \<noteq> 0)"
| "truthy (Some (JStr s)) = (s \<noteq> [])"
| "truthy (Some (JArr xs)) = True"
| "truthy (Some (JObj d)) = True"

text \<open>
  Shapes of strings: in a pattern \<open>d\<close> stands for a decimal digit, \<open>h\<close> for a
  hexadecimal digit, \<open>v\<close> for one of \<open>1\<close> to \<open>8\<close>, \<open>r\<close> for one of
  \<open>89abAB\<close>, every other character for itself.
\<close>

definition isDigit :: "char \<Rightarrow> bool" where
  "isDigit c = (c \<in> set ''0123456789'')"

definition isHex :: "char \<Rightarrow> bool" where
  "isHex c = (c \<in> set ''0123456789abcdefABCDEF'')"

fun matches :: "string \<Rightarrow> string \<Rightarrow> bool" where
  "matches [] [] = True"
| "matches (p # ps) (c # cs) =
     ((if p = CHR ''d'' then isDigit c
       else if p = CHR ''h'' then isHex c
       else if p = CHR ''v'' then c \<in> set ''12345678''
       else if p = CHR ''r'' then c \<in> set ''89abAB''
       else c = p)
      \<and> matches ps cs)"
| "matches _ _ = False"

text \<open>
  \<open>z.string().uuid()\<close>: the groups of 8, 4, 4, 4 and 12 hexadecimal digits of an
  RFC 9562 UUID, whose third group starts with the version \<open>1\<close> to \<open>8\<close> and whose
  fourth group starts with the variant \<open>8\<close>, \<open>9\<close>, \<open>a\<close> or \<open>b\<close>; or the nil
  UUID; or the max UUID.
\<close>

definition isUUID :: "string \<Rightarrow> bool" where
  "isUUID s =
     (matches ''hhhhhhhh-hhhh-vhhh-rhhh-hhhhhhhhhhhh'' s
      \<or> s = ''00000000-0000-0000-0000-000000000000''
      \<or> s = ''ffffffff-ffff-ffff-ffff-ffffffffffff'')"

definition int32 :: "int \<Rightarrow> bool" where
  "int32 n = (- 2147483648 \<le> n \<and> n \<le> 2147483647)"

section \<open>The persisted state\<close>

text \<open>
  The four tables of the migrations: \<open>Todo\<close>, \<open>Note\<close>, \<open>Conflict\<close> and
  \<open>ProcessedOperation\<close>. A \<open>Note\<close> has no \<open>status\<close> column; its rows carry
  \<open>None\<close> there. Timestamps are kept as their \<open>Date.toISOString\<close> text.
\<close>

datatype TableName = Todos | Notes

datatype OperationAction = CREATE | UPDATE | DELETE

datatype OperationStatus = APPLIED | CONFLICT | ERROR

datatype ConflictStatus = PENDING | RESOLVED | DISMISSED

record row =
  rid :: string
  title :: string
  content :: "string option"
  status :: "string option"
  version :: int
  createdAt :: string
  updatedAt :: string
  deletedAt :: "string option"

record conflict =
  cid :: string
  operationId :: string
  tableName :: TableName
  recordId :: string
  serverData :: "obj option"
  clientData :: obj
  serverVersion :: int
  clientVersion :: int
  cstatus :: ConflictStatus
  resolvedAt :: "string option"
  resolvedData :: "obj option"
  detectedAt :: string

record processed =
  pid :: string
  p_operationId :: string
  p_action :: OperationAction
  p_tableName :: TableName
  processedAt :: string

record db =
  Todo :: "row list"
  Note :: "row list"
  Conflict :: "conflict list"
  ProcessedOperation :: "processed list"

definition rowsOf :: "db \<Rightarrow> TableName \<Rightarrow> row list" where
  "rowsOf s t = (if t = Todos then Todo s else Note s)"

definition setRows :: "TableName \<Rightarrow> row list \<Rightarrow> db \<Rightarrow> db" where
  "setRows t rows s = (if t = Todos then s\<lparr>Todo := rows\<rparr> else s\<lparr>Note := rows\<rparr>)"

text \<open>A row as the JSON object that is stored in a conflict's \<open>serverData\<close>.\<close>

definition optStr :: "string option \<Rightarrow> json" where
  "optStr x = (case x of None \<Rightarrow> JNull | Some s \<Rightarrow> JStr s)"

definition rowJson :: "row \<Rightarrow> obj" where
  "rowJson r =
     [(''id'', JStr (rid r)), (''title'', JStr (title r)), (''content'', optStr (content r))]
     @ (case status r of None \<Rightarrow> [] | Some st \<Rightarrow> [(''status'', JStr st)])
     @ [(''version'', JNum (version r)), (''createdAt'', JStr (createdAt r)),
        (''updatedAt'', JStr (updatedAt r)), (''deletedAt'', optStr (deletedAt r))]"

section \<open>The ORM calls the repositories make\<close>

text \<open>
  The database client validates every argument against the column it names and throws
  on a violation; a unique index throws on a duplicate; \<open>update\<close> throws when no row
  matches its \<open>where\<close>. A thrown exception is the left summand. The argument of a
  column is a JSON literal, a \<open>Date\<close> object, or the atomic \<open>{increment: n}\<close>.
  \<open>uuid()\<close> is a generator of fresh identifiers: it returns a text longer than every
  identifier in the table. The texts of \<open>exn_message\<close> stand for the messages of the
  thrown errors, of which the service only needs that they are not empty.
\<close>

text \<open>
  Two things reach the ORM from outside the repository: the reading of the clock
  (\<open>new Date()\<close>, \<open>@default(now())\<close>, \<open>@updatedAt\<close>) and the reading of a
  date-time text. The database client parses the text that a payload gives for a
  \<open>DateTime\<close> column and stores the instant it denotes, or throws when the text
  denotes none. A stored instant is kept as its \<open>Date.toISOString\<close> text.
  \<open>parseDate\<close> is that parser; it is a parameter, and every theorem below holds for
  every parser.
\<close>

record env =
  now :: string
  parseDate :: "string \<Rightarrow> string option"

datatype exn = PrismaValidationError | UniqueConstraintFailed | RecordNotFound | TypeError

definition exn_message :: "exn \<Rightarrow> string" where
  "exn_message e = (case e of
       PrismaValidationError \<Rightarrow> ''Invalid invocation''
     | UniqueConstraintFailed \<Rightarrow> ''Unique constraint failed''
     | RecordNotFound \<Rightarrow> ''No record was found for an update''
     | TypeError \<Rightarrow> ''Cannot destructure property of null'')"

datatype arg = Val json | DateObj string | Increment int

datatype write_mode = OnCreate | OnUpdate

definition lit :: "obj \<Rightarrow> (string \<times> arg) list" where
  "lit d = map (\<lambda>kv. (fst kv, Val (snd kv))) d"

definition uuid :: "string list \<Rightarrow> string" where
  "uuid ids = replicate (Suc (foldr max (map length ids) 0)) (CHR ''u'')"

definition textArg :: "arg \<Rightarrow> string option" where
  "textArg a = (case a of Val (JStr s) \<Rightarrow> Some s | _ \<Rightarrow> None)"

definition dateArg :: "env \<Rightarrow> arg \<Rightarrow> string option" where
  "dateArg env a = (case a of
       Val (JStr s) \<Rightarrow> parseDate env s
     | DateObj s \<Rightarrow> Some s
     | _ \<Rightarrow> None)"

definition isNullArg :: "arg \<Rightarrow> bool" where
  "isNullArg a = (a = Val JNull)"

definition versionArg :: "write_mode \<Rightarrow> int \<Rightarrow> arg \<Rightarrow> int option" where
  "versionArg m old a = (case a of
       Val (JNum n) \<Rightarrow> if int32 n then Some n else None
     | Increment n \<Rightarrow> if m = OnUpdate \<and> int32 (old + n) then Some (old + n) else None
     | _ \<Rightarrow> None)"

definition setField ::
  "env \<Rightarrow> write_mode \<Rightarrow> TableName \<Rightarrow> string \<Rightarrow> arg \<Rightarrow> row \<Rightarrow> row option" where
  "setField env m t k a r =
     (if k = ''id'' then map_option (\<lambda>s. r\<lparr>rid := s\<rparr>) (textArg a)
      else if k = ''title'' then map_option (\<lambda>s. r\<lparr>title := s\<rparr>) (textArg a)
      else if k = ''content'' then
        (if isNullArg a then Some (r\<lparr>content := None\<rparr>)
         else map_option (\<lambda>s. r\<lparr>content := Some s\<rparr>) (textArg a))
      else if k = ''status'' \<and> t = Todos then map_option (\<lambda>s. r\<lparr>status := Some s\<rparr>) (textArg a)
      else if k = ''version'' then map_option (\<lambda>n. r\<lparr>version := n\<rparr>) (versionArg m (version r) a)
      else if k = ''createdAt'' then map_option (\<lambda>s. r\<lparr>createdAt := s\<rparr>) (dateArg env a)
      else if k = ''updatedAt'' then map_option (\<lambda>s. r\<lparr>updatedAt := s\<rparr>) (dateArg env a)
      else if k = ''deletedAt'' then
        (if isNullArg a then Some (r\<lparr>deletedAt := None\<rparr>)
         else map_option (\<lambda>s. r\<lparr>deletedAt := Some s\<rparr>) (dateArg env a))
      else None)"

fun setFields ::
  "env \<Rightarrow> write_mode \<Rightarrow> TableName \<Rightarrow> (string \<times> arg) list \<Rightarrow> row \<Rightarrow> row option" where
  "setFields env m t [] r = Some r"
| "setFields env m t (kv # kvs) r =
     (case setField env m t (fst kv) (snd kv) r of
        None \<Rightarrow> None
      | Some r' \<Rightarrow> setFields env m t kvs r')"

definition findUnique :: "row list \<Rightarrow> string \<Rightarrow> row option" where
  "findUnique rows i = find (\<lambda>r. rid r = i) rows"

definition defaults :: "env \<Rightarrow> TableName \<Rightarrow> row list \<Rightarrow> row" where
  "defaults env t rows =
     \<lparr>rid = uuid (map rid rows), title = [], content = None,
      status = (if t = Todos then Some ''pending'' else None), version = 1,
      createdAt = now env, updatedAt = now env, deletedAt = None\<rparr>"

text \<open>\<open>model.create({data})\<close>: \<open>title\<close> is the one column without a default.\<close>

definition create_row ::
  "env \<Rightarrow> TableName \<Rightarrow> (string \<times> arg) list \<Rightarrow> row list \<Rightarrow> exn + (row \<times> row list)" where
  "create_row env t d rows =
     (if map_of d ''title'' = None then Inl PrismaValidationError
      else case setFields env OnCreate t d (defaults env t rows) of
        None \<Rightarrow> Inl PrismaValidationError
      | Some r \<Rightarrow>
          if rid r \<in> set (map rid rows) then Inl UniqueConstraintFailed
          else Inr (r, rows @ [r]))"

text \<open>
  \<open>model.update({where: {id, version, deletedAt: null}, data})\<close>: the row is looked up
  by its key, then has to pass the other filters of \<open>where\<close>. \<open>wversion\<close> is
  \<open>None\<close> and \<open>wlive\<close> is \<open>False\<close> when \<open>where\<close> names the key only.
\<close>

definition update_row ::
  "env \<Rightarrow> TableName \<Rightarrow> json \<Rightarrow> json option \<Rightarrow> bool \<Rightarrow> (string \<times> arg) list \<Rightarrow> row list
     \<Rightarrow> exn + (row \<times> row list)" where
  "update_row env t wid wversion wlive d rows =
     (case wid of
        JStr i \<Rightarrow>
          if (case wversion of None \<Rightarrow> False | Some (JNum n) \<Rightarrow> \<not> int32 n | Some _ \<Rightarrow> True)
          then Inl PrismaValidationError
          else (case findUnique rows i of
              None \<Rightarrow> Inl RecordNotFound
            | Some r \<Rightarrow>
                if (wversion \<noteq> None \<and> wversion \<noteq> Some (JNum (version r)))
                   \<or> (wlive \<and> deletedAt r \<noteq> None)
                then Inl RecordNotFound
                else (case setFields env OnUpdate t d (r\<lparr>updatedAt := now env\<rparr>) of
                    None \<Rightarrow> Inl PrismaValidationError
                  | Some r' \<Rightarrow>
                      if rid r' \<noteq> i \<and> rid r' \<in> set (map rid rows)
                      then Inl UniqueConstraintFailed
                      else Inr (r', map (\<lambda>x. if rid x = i then r' else x) rows)))
      | _ \<Rightarrow> Inl PrismaValidationError)"

section \<open>SyncRepository\<close>

text \<open>
  Every function that writes takes the environment \<open>env\<close> as its first parameter and
  the persisted state \<open>s\<close> as its last; it returns the new state.
\<close>

definition findRecordById :: "db \<Rightarrow> TableName \<Rightarrow> json \<Rightarrow> exn + row option" where
  "findRecordById s t i =
     (case i of JStr k \<Rightarrow> Inr (findUnique (rowsOf s t) k) | _ \<Rightarrow> Inl PrismaValidationError)"

definition createRecord :: "env \<Rightarrow> TableName \<Rightarrow> obj \<Rightarrow> db \<Rightarrow> exn + (row \<times> db)" where
  "createRecord env t d s =
     (case create_row env t (assign ''version'' (Val (JNum 1)) (lit d)) (rowsOf s t) of
        Inl e \<Rightarrow> Inl e
      | Inr (r, rows) \<Rightarrow> Inr (r, setRows t rows s))"

text \<open>Both versioned writes catch every exception of the ORM and return \<open>null\<close>.\<close>

definition updateRecordWithVersionCheck ::
  "env \<Rightarrow> TableName \<Rightarrow> json \<Rightarrow> json \<Rightarrow> obj \<Rightarrow> db \<Rightarrow> row option \<times> db" where
  "updateRecordWithVersionCheck env t i cv d s =
     (case update_row env t i (Some cv) True
             (assign ''version'' (Increment 1) (lit d)) (rowsOf s t) of
        Inl e \<Rightarrow> (None, s)
      | Inr (r, rows) \<Rightarrow> (Some r, setRows t rows s))"

definition deleteRecordWithVersionCheck ::
  "env \<Rightarrow> TableName \<Rightarrow> json \<Rightarrow> json \<Rightarrow> db \<Rightarrow> row option \<times> db" where
  "deleteRecordWithVersionCheck env t i cv s =
     (case update_row env t i (Some cv) True
             [(''deletedAt'', DateObj (now env)), (''version'', Increment 1)] (rowsOf s t) of
        Inl e \<Rightarrow> (None, s)
      | Inr (r, rows) \<Rightarrow> (Some r, setRows t rows s))"

text \<open>
  \<open>prisma.conflict.create\<close>: \<open>recordId\<close> is a text column, \<open>clientVersion\<close> an
  integer column, \<open>operationId\<close> carries a unique index. \<open>serverData\<close> is a JSON
  column, and the \<open>null\<close> the service passes for an absent record is stored in it as
  the JSON value \<open>null\<close> (\<open>None\<close>).
\<close>

definition createConflict ::
  "env \<Rightarrow> string \<Rightarrow> TableName \<Rightarrow> json \<Rightarrow> obj option \<Rightarrow> obj \<Rightarrow> int \<Rightarrow> json \<Rightarrow> db
     \<Rightarrow> exn + (conflict \<times> db)" where
  "createConflict env opId t recId sData cData sVersion cVersion s =
     (case recId of
        JStr i \<Rightarrow>
          (case cVersion of
             JNum n \<Rightarrow>
               if \<not> int32 n then Inl PrismaValidationError
               else if opId \<in> set (map operationId (Conflict s)) then Inl UniqueConstraintFailed
               else
                 (let c = \<lparr>cid = uuid (map cid (Conflict s)), operationId = opId,
                            tableName = t, recordId = i, serverData = sData,
                            clientData = cData, serverVersion = sVersion, clientVersion = n,
                            cstatus = PENDING, resolvedAt = None, resolvedData = None,
                            detectedAt = now env\<rparr>
                  in Inr (c, s\<lparr>Conflict := Conflict s @ [c]\<rparr>))
           | _ \<Rightarrow> Inl PrismaValidationError)
      | _ \<Rightarrow> Inl PrismaValidationError)"

definition operationExists :: "db \<Rightarrow> string \<Rightarrow> bool" where
  "operationExists s opId = (find (\<lambda>p. p_operationId p = opId) (ProcessedOperation s) \<noteq> None)"

definition markOperationProcessed ::
  "env \<Rightarrow> string \<Rightarrow> OperationAction \<Rightarrow> TableName \<Rightarrow> db \<Rightarrow> exn + db" where
  "markOperationProcessed env opId a t s =
     (if opId \<in> set (map p_operationId (ProcessedOperation s)) then Inl UniqueConstraintFailed
      else Inr (s\<lparr>ProcessedOperation := ProcessedOperation s @
                    [\<lparr>pid = uuid (map pid (ProcessedOperation s)), p_operationId = opId,
                      p_action = a, p_tableName = t, processedAt = now env\<rparr>]\<rparr>))"

definition conflictExists :: "db \<Rightarrow> string \<Rightarrow> bool" where
  "conflictExists s opId = operationExists s opId"

section \<open>SyncService\<close>

record SyncOperation =
  op_operationId :: string
  action :: OperationAction
  table :: TableName
  data :: obj

record OperationResult =
  r_operationId :: string
  r_status :: OperationStatus
  message :: "string option"
  r_data :: "row option"
  conflictId :: "string option"

definition result :: "string \<Rightarrow> OperationStatus \<Rightarrow> string \<Rightarrow> OperationResult" where
  "result opId st msg =
     \<lparr>r_operationId = opId, r_status = st, message = Some msg, r_data = None,
      conflictId = None\<rparr>"

text \<open>
  \<open>handleCreate\<close> has its own \<open>try\<close>/\<open>catch\<close>; the message of the result is
  \<open>error?.message || 'Failed to create record'\<close>.
\<close>

definition createFailed :: "string \<Rightarrow> exn \<Rightarrow> OperationResult" where
  "createFailed opId e =
     result opId ERROR (if exn_message e = [] then ''Failed to create record'' else exn_message e)"

definition handleCreate ::
  "env \<Rightarrow> string \<Rightarrow> TableName \<Rightarrow> obj \<Rightarrow> db \<Rightarrow> OperationResult \<times> db" where
  "handleCreate env opId t d s =
     (case createRecord env t d s of
        Inl e \<Rightarrow> (createFailed opId e, s)
      | Inr (r, s1) \<Rightarrow>
          (case markOperationProcessed env opId CREATE t s1 of
             Inl e \<Rightarrow> (createFailed opId e, s1)
           | Inr s2 \<Rightarrow>
               ((result opId APPLIED ''Record created successfully'')\<lparr>r_data := Some r\<rparr>, s2)))"

text \<open>
  \<open>handleUpdate\<close> and \<open>handleDelete\<close> catch nothing: an exception leaves through
  \<open>Inl\<close>, together with the state the calls before it have written.
\<close>

definition conflictResult :: "string \<Rightarrow> string \<Rightarrow> conflict \<Rightarrow> OperationResult" where
  "conflictResult opId msg c = (result opId CONFLICT msg)\<lparr>conflictId := Some (cid c)\<rparr>"

definition handleUpdate ::
  "env \<Rightarrow> string \<Rightarrow> TableName \<Rightarrow> obj \<Rightarrow> db \<Rightarrow> (exn + OperationResult) \<times> db" where
  "handleUpdate env opId t d s =
     (case jget ''id'' d of
        None \<Rightarrow> (Inr (result opId ERROR ''Missing id or version in update data''), s)
      | Some i \<Rightarrow>
     (case jget ''version'' d of
        None \<Rightarrow> (Inr (result opId ERROR ''Missing id or version in update data''), s)
      | Some cv \<Rightarrow>
     if \<not> truthy (Some i)
     then (Inr (result opId ERROR ''Missing id or version in update data''), s)
     else
     (case findRecordById s t i of
        Inl e \<Rightarrow> (Inl e, s)
      | Inr None \<Rightarrow>
          (case createConflict env opId t i None d 0 cv s of
             Inl e \<Rightarrow> (Inl e, s)
           | Inr (c, s1) \<Rightarrow> (Inr (conflictResult opId ''Record not found on server'' c), s1))
      | Inr (Some r) \<Rightarrow>
          if JNum (version r) \<noteq> cv then
            (case createConflict env opId t i (Some (rowJson r)) d (version r) cv s of
               Inl e \<Rightarrow> (Inl e, s)
             | Inr (c, s1) \<Rightarrow> (Inr (conflictResult opId ''Version conflict detected'' c), s1))
          else
            (case updateRecordWithVersionCheck env t i cv (omit [''id'', ''version''] d) s of
               (None, s1) \<Rightarrow>
                 (Inr (result opId ERROR ''Failed to update record (race condition)''), s1)
             | (Some r', s1) \<Rightarrow>
                 (case markOperationProcessed env opId UPDATE t s1 of
                    Inl e \<Rightarrow> (Inl e, s1)
                  | Inr s2 \<Rightarrow>
                      (Inr ((result opId APPLIED ''Record updated successfully'')
                              \<lparr>r_data := Some r'\<rparr>), s2))))))"

definition alreadyDeleted ::
  "env \<Rightarrow> string \<Rightarrow> TableName \<Rightarrow> db \<Rightarrow> (exn + OperationResult) \<times> db" where
  "alreadyDeleted env opId t s =
     (case markOperationProcessed env opId DELETE t s of
        Inl e \<Rightarrow> (Inl e, s)
      | Inr s1 \<Rightarrow> (Inr (result opId APPLIED ''Record already deleted''), s1))"

definition handleDelete ::
  "env \<Rightarrow> string \<Rightarrow> TableName \<Rightarrow> obj \<Rightarrow> db \<Rightarrow> (exn + OperationResult) \<times> db" where
  "handleDelete env opId t d s =
     (case jget ''id'' d of
        None \<Rightarrow> (Inr (result opId ERROR ''Missing id or version in delete data''), s)
      | Some i \<Rightarrow>
     (case jget ''version'' d of
        None \<Rightarrow> (Inr (result opId ERROR ''Missing id or version in delete data''), s)
      | Some cv \<Rightarrow>
     if \<not> truthy (Some i)
     then (Inr (result opId ERROR ''Missing id or version in delete data''), s)
     else
     (case findRecordById s t i of
        Inl e \<Rightarrow> (Inl e, s)
      | Inr None \<Rightarrow> alreadyDeleted env opId t s
      | Inr (Some r) \<Rightarrow>
          if deletedAt r \<noteq> None then alreadyDeleted env opId t s
          else if JNum (version r) \<noteq> cv then
            (case createConflict env opId t i (Some (rowJson r)) d (version r) cv s of
               Inl e \<Rightarrow> (Inl e, s)
             | Inr (c, s1) \<Rightarrow> (Inr (conflictResult opId ''Version conflict detected'' c), s1))
          else
            (case deleteRecordWithVersionCheck env t i cv s of
               (None, s1) \<Rightarrow>
                 (Inr (result opId ERROR ''Failed to delete record (race condition)''), s1)
             | (Some r', s1) \<Rightarrow>
                 (case markOperationProcessed env opId DELETE t s1 of
                    Inl e \<Rightarrow> (Inl e, s1)
                  | Inr s2 \<Rightarrow>
                      (Inr ((result opId APPLIED ''Record deleted successfully'')
                              \<lparr>r_data := Some r'\<rparr>), s2))))))"

text \<open>
  The idempotency test of \<open>processSingleOperation\<close> calls \<open>conflictExists\<close>, which
  reads the ledger. Every exception that reaches it becomes an \<open>ERROR\<close> result. The
  \<open>default\<close> branch of its \<open>switch\<close> ("Unknown action type") has no value of
  \<open>OperationAction\<close> left to take it.
\<close>

definition caught :: "string \<Rightarrow> (exn + OperationResult) \<times> db \<Rightarrow> OperationResult \<times> db" where
  "caught opId out =
     (case fst out of
        Inl e \<Rightarrow> (result opId ERROR ''Internal server error'', snd out)
      | Inr r \<Rightarrow> (r, snd out))"

definition processSingleOperation :: "env \<Rightarrow> SyncOperation \<Rightarrow> db \<Rightarrow> OperationResult \<times> db" where
  "processSingleOperation env x s =
     (if conflictExists s (op_operationId x)
      then (result (op_operationId x) ERROR ''Operation already processed'', s)
      else (case action x of
          CREATE \<Rightarrow> handleCreate env (op_operationId x) (table x) (data x) s
        | UPDATE \<Rightarrow> caught (op_operationId x) (handleUpdate env (op_operationId x) (table x) (data x) s)
        | DELETE \<Rightarrow> caught (op_operationId x) (handleDelete env (op_operationId x) (table x) (data x) s)))"

fun processSyncOperations ::
  "env \<Rightarrow> SyncOperation list \<Rightarrow> db \<Rightarrow> OperationResult list \<times> db" where
  "processSyncOperations env [] s = ([], s)"
| "processSyncOperations env (x # xs) s =
     (case processSingleOperation env x s of
        (r, s1) \<Rightarrow> (case processSyncOperations env xs s1 of (rs, s2) \<Rightarrow> (r # rs, s2)))"

section \<open>ConflictsService\<close>

datatype Resolution = CLIENT | SERVER | CUSTOM

record ResolveConflictDTO =
  resolution :: Resolution
  dto_resolvedData :: "obj option"

record ServiceResponse =
  success :: bool
  sr_message :: string
  responseObject :: "conflict option"
  statusCode :: nat

definition successResponse :: "string \<Rightarrow> conflict \<Rightarrow> ServiceResponse" where
  "successResponse msg c =
     \<lparr>success = True, sr_message = msg, responseObject = Some c, statusCode = 200\<rparr>"

definition errorResponse :: "string \<Rightarrow> nat \<Rightarrow> ServiceResponse" where
  "errorResponse msg code =
     \<lparr>success = False, sr_message = msg, responseObject = None, statusCode = code\<rparr>"

definition notFound :: "string \<Rightarrow> ServiceResponse" where
  "notFound resource = errorResponse (resource @ '' not found'') 404"

definition validationError :: "string \<Rightarrow> ServiceResponse" where
  "validationError msg = errorResponse msg 400"

definition internalError :: "string \<Rightarrow> ServiceResponse" where
  "internalError msg = errorResponse msg 500"

definition findById :: "db \<Rightarrow> string \<Rightarrow> conflict option" where
  "findById s i = find (\<lambda>c. cid c = i) (Conflict s)"

text \<open>\<open>tx.conflict.update({where: {id}, data})\<close>.\<close>

definition update_conflict ::
  "string \<Rightarrow> (conflict \<Rightarrow> conflict) \<Rightarrow> db \<Rightarrow> exn + (conflict \<times> db)" where
  "update_conflict i f s =
     (case findById s i of
        None \<Rightarrow> Inl RecordNotFound
      | Some c \<Rightarrow>
          Inr (f c, s\<lparr>Conflict := map (\<lambda>x. if cid x = i then f c else x) (Conflict s)\<rparr>))"

text \<open>
  The payload chosen by the resolution; \<open>None\<close> is the \<open>null\<close> of a conflict that
  was recorded without a server snapshot. \<open>Inl\<close> is the early return of the
  \<open>CUSTOM\<close> branch; the last \<open>else\<close> ("Invalid resolution type") has no value of
  \<open>Resolution\<close> left to take it.
\<close>

definition dataToApply :: "conflict \<Rightarrow> ResolveConflictDTO \<Rightarrow> ServiceResponse + obj option" where
  "dataToApply c dto =
     (case resolution dto of
        CLIENT \<Rightarrow> Inr (Some (clientData c))
      | SERVER \<Rightarrow> Inr (serverData c)
      | CUSTOM \<Rightarrow>
          (case dto_resolvedData dto of
             None \<Rightarrow> Inl (validationError ''resolvedData is required for CUSTOM resolution'')
           | Some d \<Rightarrow> Inr (Some d)))"

text \<open>
  The callback of \<open>prisma.$transaction\<close>. Destructuring \<open>null\<close> throws a
  \<open>TypeError\<close>. An exception rolls the transaction back: \<open>Inl\<close> carries no state.
\<close>

definition resolveTransaction ::
  "env \<Rightarrow> conflict \<Rightarrow> string \<Rightarrow> obj option \<Rightarrow> db \<Rightarrow> exn + (conflict \<times> db)" where
  "resolveTransaction env c i chosen s =
     (case chosen of
        None \<Rightarrow> Inl TypeError
      | Some d \<Rightarrow>
          (case update_row env (tableName c) (JStr (recordId c)) None False
                  (assign ''version'' (Increment 1) (lit (omit [''id'', ''version''] d)))
                  (rowsOf s (tableName c)) of
             Inl e \<Rightarrow> Inl e
           | Inr (r, rows) \<Rightarrow>
               update_conflict i
                 (\<lambda>x. x\<lparr>cstatus := RESOLVED, resolvedData := chosen, resolvedAt := Some (now env)\<rparr>)
                 (setRows (tableName c) rows s)))"

definition resolveConflict ::
  "env \<Rightarrow> string \<Rightarrow> ResolveConflictDTO \<Rightarrow> db \<Rightarrow> ServiceResponse \<times> db" where
  "resolveConflict env i dto s =
     (case findById s i of
        None \<Rightarrow> (notFound ''Conflict'', s)
      | Some c \<Rightarrow>
          if cstatus c \<noteq> PENDING
          then (validationError ''Conflict has already been resolved or dismissed'', s)
          else (case dataToApply c dto of
              Inl early \<Rightarrow> (early, s)
            | Inr chosen \<Rightarrow>
                (case resolveTransaction env c i chosen s of
                   Inl e \<Rightarrow> (internalError ''Failed to resolve conflict'', s)
                 | Inr (rc, s1) \<Rightarrow> (successResponse ''Conflict resolved successfully'' rc, s1))))"

section \<open>The wire layer: SyncRequestSchema and SyncController\<close>

text \<open>
  \<open>schema.parse\<close> returns the parsed value or throws; \<open>None\<close> is the thrown
  \<open>ZodError\<close>. An operation is an object with a UUID \<open>operationId\<close>, an
  \<open>action\<close> and a \<open>table\<close> of the two enumerations, and an object \<open>data\<close>;
  a request is an object whose \<open>operations\<close> is an array of 1 to 100 operations.
\<close>

definition OperationActionSchema :: "json \<Rightarrow> OperationAction option" where
  "OperationActionSchema j =
     (if j = JStr ''CREATE'' then Some CREATE
      else if j = JStr ''UPDATE'' then Some UPDATE
      else if j = JStr ''DELETE'' then Some DELETE
      else None)"

definition TableNameSchema :: "json \<Rightarrow> TableName option" where
  "TableNameSchema j =
     (if j = JStr ''todos'' then Some Todos
      else if j = JStr ''notes'' then Some Notes
      else None)"

definition SyncOperationSchema :: "json \<Rightarrow> SyncOperation option" where
  "SyncOperationSchema j =
     (case j of
        JObj d \<Rightarrow>
          (case jget ''operationId'' d of
             Some (JStr opId) \<Rightarrow>
               if \<not> isUUID opId then None
               else (case Option.bind (jget ''action'' d) OperationActionSchema of
                   None \<Rightarrow> None
                 | Some a \<Rightarrow>
                     (case Option.bind (jget ''table'' d) TableNameSchema of
                        None \<Rightarrow> None
                      | Some t \<Rightarrow>
                          (case jget ''data'' d of
                             Some (JObj payload) \<Rightarrow>
                               Some \<lparr>op_operationId = opId, action = a, table = t,
                                     data = payload\<rparr>
                           | _ \<Rightarrow> None)))
           | _ \<Rightarrow> None)
      | _ \<Rightarrow> None)"

fun parseAll :: "json list \<Rightarrow> SyncOperation list option" where
  "parseAll [] = Some []"
| "parseAll (j # js) =
     (case SyncOperationSchema j of
        None \<Rightarrow> None
      | Some x \<Rightarrow> (case parseAll js of None \<Rightarrow> None | Some xs \<Rightarrow> Some (x # xs)))"

definition SyncRequestSchema :: "json \<Rightarrow> SyncOperation list option" where
  "SyncRequestSchema body =
     (case body of
        JObj d \<Rightarrow>
          (case jget ''operations'' d of
             Some (JArr js) \<Rightarrow>
               if length js < 1 \<or> 100 < length js then None else parseAll js
           | _ \<Rightarrow> None)
      | _ \<Rightarrow> None)"

text \<open>
  The answer of \<open>POST /api/sync\<close>: status 200 with the results and their summary
  (total, applied, conflicts, errors), or the failure that \<open>handleServiceResponse\<close>
  sends.
\<close>

datatype SyncResponse =
    Completed "OperationResult list" nat nat nat nat
  | Failed nat string

definition countStatus :: "OperationStatus \<Rightarrow> OperationResult list \<Rightarrow> nat" where
  "countStatus st rs = length (filter (\<lambda>r. r_status r = st) rs)"

definition sync :: "env \<Rightarrow> json \<Rightarrow> db \<Rightarrow> SyncResponse \<times> db" where
  "sync env body s =
     (case SyncRequestSchema body of
        None \<Rightarrow> (Failed 400 ''Invalid sync request'', s)
      | Some xs \<Rightarrow>
          (case processSyncOperations env xs s of
             (rs, s1) \<Rightarrow>
               (Completed rs (length rs) (countStatus APPLIED rs) (countStatus CONFLICT rs)
                  (countStatus ERROR rs), s1)))"

section \<open>Example states and requests\<close>

definition clock :: string where
  "clock = ''2026-01-27T10:00:00.000Z''"

text \<open>
  The parser of the examples. It reads the UTC spellings of a date-time with or without
  milliseconds, checks the ranges of the fields, and returns the spelling with
  milliseconds. It serves to evaluate the examples only.
\<close>

definition digitVal :: "char \<Rightarrow> nat" where
  "digitVal c = length (takeWhile (\<lambda>x. x \<noteq> c) ''0123456789'')"

definition number :: "string \<Rightarrow> nat" where
  "number cs = foldl (\<lambda>n c. 10 * n + digitVal c) 0 cs"

definition leapYear :: "nat \<Rightarrow> bool" where
  "leapYear y = (y mod 4 = 0 \<and> (y mod 400 = 0 \<or> y mod 100 \<noteq> 0))"

definition daysIn :: "nat \<Rightarrow> nat \<Rightarrow> nat" where
  "daysIn y m =
     (if m = 2 then (if leapYear y then 29 else 28)
      else if m = 4 \<or> m = 6 \<or> m = 9 \<or> m = 11 then 30
      else 31)"

definition inRange :: "string \<Rightarrow> bool" where
  "inRange s =
     (1 \<le> number (take 2 (drop 5 s)) \<and> number (take 2 (drop 5 s)) \<le> 12
      \<and> 1 \<le> number (take 2 (drop 8 s))
      \<and> number (take 2 (drop 8 s)) \<le> daysIn (number (take 4 s)) (number (take 2 (drop 5 s)))
      \<and> number (take 2 (drop 11 s)) \<le> 23
      \<and> number (take 2 (drop 14 s)) \<le> 59
      \<and> number (take 2 (drop 17 s)) \<le> 59)"

definition utcDateTime :: "string \<Rightarrow> string option" where
  "utcDateTime s =
     (if matches ''dddd-dd-ddTdd:dd:dd.dddZ'' s \<and> inRange s then Some s
      else if matches ''dddd-dd-ddTdd:dd:ddZ'' s \<and> inRange s
        then Some (take 19 s @ ''.000Z'')
      else None)"

definition exampleEnv :: env where
  "exampleEnv = \<lparr>now = clock, parseDate = utcDateTime\<rparr>"

definition emptyDb :: db where
  "emptyDb = \<lparr>Todo = [], Note = [], Conflict = [], ProcessedOperation = []\<rparr>"

definition o1 :: string where
  "o1 = ''11111111-1111-4111-8111-111111111111''"

definition o2 :: string where
  "o2 = ''22222222-2222-4222-8222-222222222222''"

definition o3 :: string where
  "o3 = ''33333333-3333-4333-8333-333333333333''"

definition milk :: row where
  "milk = \<lparr>rid = ''t1'', title = ''buy milk'', content = None, status = Some ''pending'',
            version = 2, createdAt = ''2026-01-26T09:00:00.000Z'',
            updatedAt = ''2026-01-26T09:30:00.000Z'', deletedAt = None\<rparr>"

definition createMilk :: SyncOperation where
  "createMilk = \<lparr>op_operationId = o1, action = CREATE, table = Todos,
      data = [(''id'', JStr ''t1''), (''title'', JStr ''buy milk''),
              (''status'', JStr ''pending'')]\<rparr>"

text \<open>The state after \<open>createMilk\<close> has been applied once.\<close>

definition afterCreate :: db where
  "afterCreate = snd (processSingleOperation exampleEnv createMilk emptyDb)"

definition milkDb :: db where
  "milkDb = \<lparr>Todo = [milk], Note = [], Conflict = [], ProcessedOperation = []\<rparr>"

definition bread :: row where
  "bread = milk\<lparr>title := ''buy bread'', version := 3, updatedAt := clock\<rparr>"

definition gone :: row where
  "gone = milk\<lparr>version := 3, updatedAt := clock, deletedAt := Some clock\<rparr>"

text \<open>An update of \<open>t1\<close> from the stale version 1, and the state it leaves.\<close>

definition updateStale :: SyncOperation where
  "updateStale = \<lparr>op_operationId = o2, action = UPDATE, table = Todos,
      data = [(''id'', JStr ''t1''), (''title'', JStr ''buy bread''), (''version'', JNum 1)]\<rparr>"

definition staleDb :: db where
  "staleDb = snd (processSingleOperation exampleEnv updateStale milkDb)"

definition resolveClient :: ResolveConflictDTO where
  "resolveClient = \<lparr>resolution = CLIENT, dto_resolvedData = None\<rparr>"

text \<open>A delete and an update of records that do not exist.\<close>

definition deleteGhost :: SyncOperation where
  "deleteGhost = \<lparr>op_operationId = o3, action = DELETE, table = Notes,
      data = [(''id'', JStr ''t99''), (''version'', JNum 1)]\<rparr>"

text \<open>The same delete without \<open>version\<close>, and the state after \<open>deleteGhost\<close>.\<close>

definition deleteNoVersion :: SyncOperation where
  "deleteNoVersion = \<lparr>op_operationId = o3, action = DELETE, table = Notes,
      data = [(''id'', JStr ''t99'')]\<rparr>"

definition afterDelete :: db where
  "afterDelete = snd (processSingleOperation exampleEnv deleteGhost emptyDb)"

definition updateGhost :: SyncOperation where
  "updateGhost = \<lparr>op_operationId = o3, action = UPDATE, table = Todos,
      data = [(''id'', JStr ''t99''), (''title'', JStr ''buy bread''), (''version'', JNum 1)]\<rparr>"

text \<open>The state after \<open>updateGhost\<close> has been submitted once, and a resolution by the server side.\<close>

definition ghostDb :: db where
  "ghostDb = snd (processSingleOperation exampleEnv updateGhost emptyDb)"

definition resolveServer :: ResolveConflictDTO where
  "resolveServer = \<lparr>resolution = SERVER, dto_resolvedData = None\<rparr>"

text \<open>A tombstone at version 3, and an update that names this version.\<close>

definition goneDb :: db where
  "goneDb = \<lparr>Todo = [gone], Note = [], Conflict = [], ProcessedOperation = []\<rparr>"

definition updateGone :: SyncOperation where
  "updateGone = \<lparr>op_operationId = o2, action = UPDATE, table = Todos,
      data = [(''id'', JStr ''t1''), (''title'', JStr ''buy bread''), (''version'', JNum 3)]\<rparr>"

text \<open>A delete of that tombstone.\<close>

definition deleteGone :: SyncOperation where
  "deleteGone = \<lparr>op_operationId = o3, action = DELETE, table = Todos,
      data = [(''id'', JStr ''t1''), (''version'', JNum 2)]\<rparr>"

text \<open>A create whose payload carries a \<open>version\<close> and a \<open>deletedAt\<close>.\<close>

definition createGone :: SyncOperation where
  "createGone = \<lparr>op_operationId = o2, action = CREATE, table = Todos,
      data = [(''id'', JStr ''t7''), (''title'', JStr ''write report''), (''version'', JNum 7),
              (''deletedAt'', JStr ''2026-01-01T00:00:00.000Z'')]\<rparr>"

text \<open>The same with \<open>deletedAt\<close> spelled without milliseconds.\<close>

definition createGoneShort :: SyncOperation where
  "createGoneShort = \<lparr>op_operationId = o2, action = CREATE, table = Todos,
      data = [(''id'', JStr ''t7''), (''title'', JStr ''write report''), (''version'', JNum 7),
              (''deletedAt'', JStr ''2026-01-01T00:00:00Z'')]\<rparr>"

text \<open>Request bodies: one operation twice, and a batch with an \<open>operationId\<close> that is no UUID.\<close>

definition createMilkJson :: json where
  "createMilkJson = JObj [(''operationId'', JStr o1), (''action'', JStr ''CREATE''),
     (''table'', JStr ''todos''),
     (''data'', JObj [(''id'', JStr ''t1''), (''title'', JStr ''buy milk''),
                      (''status'', JStr ''pending'')])]"

definition twice :: json where
  "twice = JObj [(''operations'', JArr [createMilkJson, createMilkJson])]"

definition badId :: json where
  "badId = JObj [(''operationId'', JStr ''o1''), (''action'', JStr ''CREATE''),
     (''table'', JStr ''todos''),
     (''data'', JObj [(''id'', JStr ''t2''), (''title'', JStr ''buy eggs'')])]"

definition mixed :: json where
  "mixed = JObj [(''operations'', JArr [createMilkJson, badId])]"


section \<open>Writes of the ORM\<close>

lemma setFields_append:
  "setFields env m t (xs @ ys) r =
     (case setFields env m t xs r of None \<Rightarrow> None | Some r' \<Rightarrow> setFields env m t ys r')"
  by (induction xs arbitrary: r) (auto split: option.splits)

lemma setField_version_other:
  "setField env m t k a r = Some r' \<Longrightarrow> k \<noteq> ''version'' \<Longrightarrow> version r' = version r"
  by (auto simp: setField_def split: if_splits)

lemma setField_rid_other:
  "setField env m t k a r = Some r' \<Longrightarrow> k \<noteq> ''id'' \<Longrightarrow> rid r' = rid r"
  by (auto simp: setField_def split: if_splits)

lemma setFields_version_other:
  "setFields env m t d r = Some r' \<Longrightarrow> \<forall>kv\<in>set d. fst kv \<noteq> ''version'' \<Longrightarrow> version r' = version r"
proof (induction d arbitrary: r)
  case Nil
  then show ?case by simp
next
  case (Cons kv d)
  from Cons.prems(1) obtain r1 where
    a: "setField env m t (fst kv) (snd kv) r = Some r1" and b: "setFields env m t d r1 = Some r'"
    by (auto split: option.splits)
  from Cons.prems(2) have "fst kv \<noteq> ''version''" by simp
  with a have "version r1 = version r" by (rule setField_version_other)
  moreover from Cons.IH [OF b] Cons.prems(2) have "version r' = version r1" by simp
  ultimately show ?case by simp
qed

lemma setFields_rid_other:
  "setFields env m t d r = Some r' \<Longrightarrow> \<forall>kv\<in>set d. fst kv \<noteq> ''id'' \<Longrightarrow> rid r' = rid r"
proof (induction d arbitrary: r)
  case Nil
  then show ?case by simp
next
  case (Cons kv d)
  from Cons.prems(1) obtain r1 where
    a: "setField env m t (fst kv) (snd kv) r = Some r1" and b: "setFields env m t d r1 = Some r'"
    by (auto split: option.splits)
  from Cons.prems(2) have "fst kv \<noteq> ''id''" by simp
  with a have "rid r1 = rid r" by (rule setField_rid_other)
  moreover from Cons.IH [OF b] Cons.prems(2) have "rid r' = rid r1" by simp
  ultimately show ?case by simp
qed

lemma setFields_increment:
  assumes "setFields env OnUpdate t (assign ''version'' (Increment 1) d) r = Some r'"
  shows "version r' = version r + 1"
proof -
  let ?rest = "filter (\<lambda>kv. fst kv \<noteq> ''version'') d"
  from assms obtain r1 where
    a: "setFields env OnUpdate t ?rest r = Some r1"
    and b: "setField env OnUpdate t ''version'' (Increment 1) r1 = Some r'"
    by (auto simp: assign_def setFields_append split: option.splits)
  from a have "version r1 = version r"
    by (rule setFields_version_other) simp
  moreover from b have "version r' = version r1 + 1"
    by (auto simp: setField_def versionArg_def split: if_splits)
  ultimately show ?thesis by simp
qed

lemma setFields_created_version:
  assumes "setFields env OnCreate t (assign ''version'' (Val (JNum 1)) d) r = Some r'"
  shows "version r' = 1"
proof -
  from assms obtain r1 where
    "setField env OnCreate t ''version'' (Val (JNum 1)) r1 = Some r'"
    by (auto simp: assign_def setFields_append split: option.splits)
  then show ?thesis
    by (auto simp: setField_def versionArg_def split: if_splits)
qed


lemma update_row_increment:
  assumes "update_row env t wid wv wl (assign ''version'' (Increment 1) d) rows = Inr (r', rows')"
  shows "\<exists>i r. wid = JStr i \<and> findUnique rows i = Some r \<and> version r' = version r + 1
           \<and> rows' = map (\<lambda>x. if rid x = i then r' else x) rows
           \<and> (rid r' = i \<or> rid r' \<notin> set (map rid rows))
           \<and> (wl \<longrightarrow> deletedAt r = None)"
proof -
  from assms obtain i where wid: "wid = JStr i"
    by (cases wid) (simp_all add: update_row_def)
  from assms wid obtain r where r: "findUnique rows i = Some r"
    by (cases "findUnique rows i") (auto simp: update_row_def split: if_splits)
  from assms wid r have live: "wl \<longrightarrow> deletedAt r = None"
    by (auto simp: update_row_def split: if_splits)
  from assms wid r obtain
    sf: "setFields env OnUpdate t (assign ''version'' (Increment 1) d) (r\<lparr>updatedAt := now env\<rparr>) = Some r'"
    and rows': "rows' = map (\<lambda>x. if rid x = i then r' else x) rows"
    and key: "rid r' = i \<or> rid r' \<notin> set (map rid rows)"
    by (auto simp: update_row_def split: if_splits option.splits)
  from setFields_increment [OF sf] have "version r' = version r + 1" by simp
  with wid r rows' key live show ?thesis by blast
qed

lemma findUnique_replaced:
  assumes "findUnique rows i = Some r"
    and "rid r' = i \<or> rid r' \<notin> set (map rid rows)"
  shows "findUnique (map (\<lambda>x. if rid x = i then r' else x) rows) (rid r') = Some r'"
  using assms
proof (induction rows)
  case Nil
  then show ?case by (simp add: findUnique_def)
next
  case (Cons x rows)
  show ?case
  proof (cases "rid x = i")
    case True
    then show ?thesis by (simp add: findUnique_def)
  next
    case False
    with Cons.prems(1) have f: "findUnique rows i = Some r"
      by (simp add: findUnique_def)
    from Cons.prems(2) have k: "rid r' = i \<or> rid r' \<notin> set (map rid rows)" by auto
    from Cons.prems(2) False have "rid x \<noteq> rid r'" by auto
    with False Cons.IH [OF f k] show ?thesis
      by (simp add: findUnique_def)
  qed
qed

lemma rowsOf_setRows: "rowsOf (setRows t rows s) t = rows"
  by (cases t) (simp_all add: rowsOf_def setRows_def)


lemma rowsOf_Conflict_update: "rowsOf (s\<lparr>Conflict := cs\<rparr>) t = rowsOf s t"
  by (simp add: rowsOf_def)

lemma resolve_keys_keep_id:
  assumes "setFields env OnUpdate t (assign ''version'' a (lit (omit [''id'', ''version''] d))) r = Some r'"
  shows "rid r' = rid r"
  using assms by (rule setFields_rid_other) (auto simp: assign_def lit_def omit_def)

lemma update_row_keeps_id:
  assumes "update_row env t (JStr i) wv wl (assign ''version'' a (lit (omit [''id'', ''version''] d))) rows
             = Inr (r', rows')"
  shows "rid r' = i"
proof -
  from assms obtain r where r: "findUnique rows i = Some r"
    by (cases "findUnique rows i") (auto simp: update_row_def split: if_splits)
  then have "rid r = i"
    by (auto simp: findUnique_def find_Some_iff)
  moreover from assms r have
    "setFields env OnUpdate t (assign ''version'' a (lit (omit [''id'', ''version''] d)))
       (r\<lparr>updatedAt := now env\<rparr>) = Some r'"
    by (auto simp: update_row_def split: if_splits option.splits)
  then have "rid r' = rid (r\<lparr>updatedAt := now env\<rparr>)" by (rule resolve_keys_keep_id)
  ultimately show ?thesis by simp
qed

lemma resolveTransaction_success:
  assumes "resolveTransaction env c ci chosen s = Inr (rc, s1)"
  shows "\<exists>r r'. findUnique (rowsOf s (tableName c)) (recordId c) = Some r
           \<and> version r' = version r + 1 \<and> rid r' = recordId c
           \<and> rowsOf s1 (tableName c) =
               map (\<lambda>x. if rid x = recordId c then r' else x) (rowsOf s (tableName c))"
proof -
  from assms obtain d where ch: "chosen = Some d"
    by (cases chosen) (simp_all add: resolveTransaction_def)
  let ?args = "assign ''version'' (Increment 1) (lit (omit [''id'', ''version''] d))"
  from assms ch obtain r' rows where
    up: "update_row env (tableName c) (JStr (recordId c)) None False ?args
           (rowsOf s (tableName c)) = Inr (r', rows)"
    and uc: "update_conflict ci
               (\<lambda>x. x\<lparr>cstatus := RESOLVED, resolvedData := chosen, resolvedAt := Some (now env)\<rparr>)
               (setRows (tableName c) rows s) = Inr (rc, s1)"
    by (auto simp: resolveTransaction_def split: sum.splits)
  from uc have "rowsOf s1 (tableName c) = rows"
    by (auto simp: update_conflict_def rowsOf_Conflict_update rowsOf_setRows split: option.splits)
  moreover from update_row_increment [OF up] obtain r where
    "findUnique (rowsOf s (tableName c)) (recordId c) = Some r" "version r' = version r + 1"
    "rows = map (\<lambda>x. if rid x = recordId c then r' else x) (rowsOf s (tableName c))"
    by auto
  moreover from up have "rid r' = recordId c" by (rule update_row_keeps_id)
  ultimately show ?thesis by blast
qed

lemma dataToApply_early: "dataToApply c dto = Inl e \<Longrightarrow> statusCode e = 400"
  by (auto simp: dataToApply_def validationError_def errorResponse_def
      split: Resolution.splits option.splits)

lemma resolveConflict_success:
  assumes "resolveConflict env ci dto s = (resp, s')" and "statusCode resp = 200"
  shows "\<exists>c chosen rc. findById s ci = Some c \<and> cstatus c = PENDING
           \<and> dataToApply c dto = Inr chosen
           \<and> resolveTransaction env c ci chosen s = Inr (rc, s')
           \<and> resp = successResponse ''Conflict resolved successfully'' rc"
proof -
  from assms obtain c where c: "findById s ci = Some c"
    by (cases "findById s ci")
      (auto simp: resolveConflict_def notFound_def errorResponse_def)
  from assms c have p: "cstatus c = PENDING"
    by (auto simp: resolveConflict_def validationError_def errorResponse_def split: if_splits)
  from assms c p obtain chosen where ch: "dataToApply c dto = Inr chosen"
    by (cases "dataToApply c dto")
      (auto simp: resolveConflict_def dest: dataToApply_early)
  from assms c p ch show ?thesis
    by (auto simp: resolveConflict_def internalError_def errorResponse_def split: sum.splits)
qed

text \<open>The equations that evaluate the model on a concrete input.\<close>

lemmas ev = processSingleOperation_def conflictExists_def operationExists_def handleUpdate_def
  handleDelete_def handleCreate_def createRecord_def create_row_def update_row_def
  findRecordById_def findUnique_def createConflict_def markOperationProcessed_def
  updateRecordWithVersionCheck_def deleteRecordWithVersionCheck_def alreadyDeleted_def
  caught_def result_def conflictResult_def createFailed_def
  jget_def omit_def assign_def lit_def setField_def textArg_def dateArg_def isNullArg_def
  versionArg_def int32_def defaults_def rowsOf_def setRows_def uuid_def rowJson_def optStr_def
  resolveConflict_def resolveTransaction_def dataToApply_def update_conflict_def findById_def
  successResponse_def errorResponse_def notFound_def validationError_def internalError_def
  exampleEnv_def Let_def

lemmas dates = utcDateTime_def inRange_def daysIn_def leapYear_def number_def digitVal_def
  isDigit_def

section \<open>Replay of a processed operation\<close>

text \<open>
  C2. An operation whose \<open>operationId\<close> is in the ledger of processed operations gets
  the result \<open>ERROR\<close> with the message "Operation already processed", and the
  persisted state after the call is the state before it: no record, no conflict and no
  ledger entry is written.
\<close>

theorem replay_is_rejected_without_effect:
  assumes "opId \<in> set (map p_operationId (ProcessedOperation s))"
    and "op_operationId x = opId"
  shows "processSingleOperation env x s =
           (\<lparr>r_operationId = opId, r_status = ERROR,
             message = Some ''Operation already processed'', r_data = None,
             conflictId = None\<rparr>, s)"
proof -
  from assms(1) obtain p where "p \<in> set (ProcessedOperation s)" "p_operationId p = opId"
    by auto
  then have "find (\<lambda>p. p_operationId p = opId) (ProcessedOperation s) \<noteq> None"
    by (auto simp: find_None_iff)
  then have "conflictExists s opId"
    by (simp add: conflictExists_def operationExists_def)
  with assms(2) show ?thesis
    by (simp add: processSingleOperation_def result_def)
qed

theorem replay_is_rejected_without_effect_witness:
  "o1 \<in> set (map p_operationId (ProcessedOperation afterCreate))
   \<and> op_operationId createMilk = o1
   \<and> processSingleOperation exampleEnv createMilk afterCreate =
       (\<lparr>r_operationId = o1, r_status = ERROR,
         message = Some ''Operation already processed'', r_data = None,
         conflictId = None\<rparr>, afterCreate)"
proof -
  have a: "o1 \<in> set (map p_operationId (ProcessedOperation afterCreate))"
    by (simp add: afterCreate_def processSingleOperation_def conflictExists_def
        operationExists_def emptyDb_def createMilk_def handleCreate_def createRecord_def
        create_row_def assign_def lit_def setField_def textArg_def versionArg_def int32_def
        defaults_def rowsOf_def setRows_def markOperationProcessed_def)
  have b: "op_operationId createMilk = o1"
    by (simp add: createMilk_def)
  from replay_is_rejected_without_effect [OF a b] a b show ?thesis
    by simp
qed

section \<open>Versions\<close>

text \<open>
  C3. Every successful mutation of a record leaves it with the previous version plus one:
  a versioned update that returns a row, a versioned soft delete that returns a row, and
  a conflict resolution that answers 200. In each case the record found under the
  identifier before the call has version \<open>v\<close> and the record stored by the call has
  version \<open>v + 1\<close>, so the versions of a record increase strictly from one successful
  mutation to the next.
\<close>

theorem successful_mutation_increments_version:
  "(updateRecordWithVersionCheck env t wid cv d s = (Some r1, s1) \<longrightarrow>
      (\<exists>i r. wid = JStr i \<and> findUnique (rowsOf s t) i = Some r \<and> version r1 = version r + 1
         \<and> rowsOf s1 t = map (\<lambda>x. if rid x = i then r1 else x) (rowsOf s t)
         \<and> findUnique (rowsOf s1 t) (rid r1) = Some r1))
   \<and> (deleteRecordWithVersionCheck env t wid cv s = (Some r2, s2) \<longrightarrow>
      (\<exists>i r. wid = JStr i \<and> findUnique (rowsOf s t) i = Some r \<and> version r2 = version r + 1
         \<and> rowsOf s2 t = map (\<lambda>x. if rid x = i then r2 else x) (rowsOf s t)
         \<and> findUnique (rowsOf s2 t) (rid r2) = Some r2))
   \<and> (resolveConflict env ci dto s = (resp, s3) \<and> statusCode resp = 200 \<longrightarrow>
      (\<exists>c r r3. findById s ci = Some c
         \<and> findUnique (rowsOf s (tableName c)) (recordId c) = Some r
         \<and> findUnique (rowsOf s3 (tableName c)) (recordId c) = Some r3
         \<and> version r3 = version r + 1))"
proof (intro conjI impI)
  assume a: "updateRecordWithVersionCheck env t wid cv d s = (Some r1, s1)"
  then obtain rows where
    up: "update_row env t wid (Some cv) True (assign ''version'' (Increment 1) (lit d))
           (rowsOf s t) = Inr (r1, rows)"
    and s1: "s1 = setRows t rows s"
    by (auto simp: updateRecordWithVersionCheck_def split: sum.splits)
  from update_row_increment [OF up] obtain i r where
    f: "wid = JStr i" "findUnique (rowsOf s t) i = Some r" "version r1 = version r + 1"
    "rows = map (\<lambda>x. if rid x = i then r1 else x) (rowsOf s t)"
    "rid r1 = i \<or> rid r1 \<notin> set (map rid (rowsOf s t))"
    by auto
  from findUnique_replaced [OF f(2) f(5)] f(4) have "findUnique rows (rid r1) = Some r1"
    by simp
  with f s1 show "\<exists>i r. wid = JStr i \<and> findUnique (rowsOf s t) i = Some r
      \<and> version r1 = version r + 1
      \<and> rowsOf s1 t = map (\<lambda>x. if rid x = i then r1 else x) (rowsOf s t)
      \<and> findUnique (rowsOf s1 t) (rid r1) = Some r1"
    by (simp add: rowsOf_setRows)
next
  assume a: "deleteRecordWithVersionCheck env t wid cv s = (Some r2, s2)"
  then obtain rows where
    up: "update_row env t wid (Some cv) True
           (assign ''version'' (Increment 1) [(''deletedAt'', DateObj (now env))])
           (rowsOf s t) = Inr (r2, rows)"
    and s2: "s2 = setRows t rows s"
    by (auto simp: deleteRecordWithVersionCheck_def assign_def split: sum.splits)
  from update_row_increment [OF up] obtain i r where
    f: "wid = JStr i" "findUnique (rowsOf s t) i = Some r" "version r2 = version r + 1"
    "rows = map (\<lambda>x. if rid x = i then r2 else x) (rowsOf s t)"
    "rid r2 = i \<or> rid r2 \<notin> set (map rid (rowsOf s t))"
    by auto
  from findUnique_replaced [OF f(2) f(5)] f(4) have "findUnique rows (rid r2) = Some r2"
    by simp
  with f s2 show "\<exists>i r. wid = JStr i \<and> findUnique (rowsOf s t) i = Some r
      \<and> version r2 = version r + 1
      \<and> rowsOf s2 t = map (\<lambda>x. if rid x = i then r2 else x) (rowsOf s t)
      \<and> findUnique (rowsOf s2 t) (rid r2) = Some r2"
    by (simp add: rowsOf_setRows)
next
  assume a: "resolveConflict env ci dto s = (resp, s3) \<and> statusCode resp = 200"
  with resolveConflict_success [of env ci dto s resp s3] obtain c chosen rc where
    c: "findById s ci = Some c" and tx: "resolveTransaction env c ci chosen s = Inr (rc, s3)"
    by auto
  from resolveTransaction_success [OF tx] obtain r r3 where
    f: "findUnique (rowsOf s (tableName c)) (recordId c) = Some r"
    "version r3 = version r + 1" "rid r3 = recordId c"
    "rowsOf s3 (tableName c) =
       map (\<lambda>x. if rid x = recordId c then r3 else x) (rowsOf s (tableName c))"
    by auto
  from findUnique_replaced [OF f(1), of r3] f(3) f(4)
  have "findUnique (rowsOf s3 (tableName c)) (recordId c) = Some r3" by simp
  with c f show "\<exists>c r r3. findById s ci = Some c
      \<and> findUnique (rowsOf s (tableName c)) (recordId c) = Some r
      \<and> findUnique (rowsOf s3 (tableName c)) (recordId c) = Some r3
      \<and> version r3 = version r + 1"
    by blast
qed

theorem successful_mutation_increments_version_witness:
  "updateRecordWithVersionCheck exampleEnv Todos (JStr ''t1'') (JNum 2)
      [(''title'', JStr ''buy bread'')] staleDb = (Some bread, staleDb\<lparr>Todo := [bread]\<rparr>)
   \<and> deleteRecordWithVersionCheck exampleEnv Todos (JStr ''t1'') (JNum 2) staleDb
        = (Some gone, staleDb\<lparr>Todo := [gone]\<rparr>)
   \<and> statusCode (fst (resolveConflict exampleEnv ''u'' resolveClient staleDb)) = 200
   \<and> findUnique (rowsOf staleDb Todos) ''t1'' = Some milk
   \<and> version bread = version milk + 1
   \<and> version gone = version milk + 1
   \<and> (\<exists>r3. findUnique (rowsOf (snd (resolveConflict exampleEnv ''u'' resolveClient staleDb)) Todos) ''t1''
          = Some r3 \<and> version r3 = version milk + 1)"
proof -
  have st: "Todo staleDb = [milk] \<and> findById staleDb ''u'' \<noteq> None"
    by (simp add: staleDb_def updateStale_def milkDb_def milk_def ev)
  have a: "updateRecordWithVersionCheck exampleEnv Todos (JStr ''t1'') (JNum 2)
      [(''title'', JStr ''buy bread'')] staleDb = (Some bread, staleDb\<lparr>Todo := [bread]\<rparr>)"
    using st by (simp add: milk_def bread_def ev)
  have b: "deleteRecordWithVersionCheck exampleEnv Todos (JStr ''t1'') (JNum 2) staleDb
        = (Some gone, staleDb\<lparr>Todo := [gone]\<rparr>)"
    using st by (simp add: milk_def gone_def ev)
  have c: "statusCode (fst (resolveConflict exampleEnv ''u'' resolveClient staleDb)) = 200"
    by (simp add: staleDb_def updateStale_def milkDb_def milk_def resolveClient_def ev)
  have d: "findUnique (rowsOf staleDb Todos) ''t1'' = Some milk"
    using st by (simp add: milk_def rowsOf_def findUnique_def)
  have e: "findById staleDb ''u'' = Some x \<Longrightarrow> tableName x = Todos \<and> recordId x = ''t1''" for x
    by (auto simp: staleDb_def updateStale_def milkDb_def milk_def ev)
  from successful_mutation_increments_version
    [of exampleEnv Todos "JStr ''t1''" "JNum 2" "[(''title'', JStr ''buy bread'')]" staleDb
      bread "staleDb\<lparr>Todo := [bread]\<rparr>" gone "staleDb\<lparr>Todo := [gone]\<rparr>"
      "''u''" resolveClient "fst (resolveConflict exampleEnv ''u'' resolveClient staleDb)"
      "snd (resolveConflict exampleEnv ''u'' resolveClient staleDb)"]
    a b c d e
  show ?thesis by auto
qed

section \<open>Operations of the sync processor\<close>

lemma operationExists_iff:
  "operationExists s opId \<longleftrightarrow> opId \<in> set (map p_operationId (ProcessedOperation s))"
  by (auto simp: operationExists_def find_None_iff)

lemma length_le_longest: "x \<in> set ids \<Longrightarrow> length x \<le> foldr max (map length ids) 0"
  by (induction ids) auto

lemma uuid_fresh: "uuid ids \<notin> set ids"
proof
  assume "uuid ids \<in> set ids"
  then have "length (uuid ids) \<le> foldr max (map length ids) 0"
    by (rule length_le_longest)
  then show False by (simp add: uuid_def)
qed

lemma createConflict_success:
  assumes "createConflict env opId t recId sd cd sv cv s = Inr (c, s1)"
  shows "s1 = s\<lparr>Conflict := Conflict s @ [c]\<rparr> \<and> operationId c = opId \<and> cstatus c = PENDING
         \<and> cid c = uuid (map cid (Conflict s)) \<and> opId \<notin> set (map operationId (Conflict s))"
  using assms
  by (auto simp: createConflict_def Let_def split: json.splits if_splits)

lemma handleCreate_status:
  "handleCreate env opId t d s = (res, s') \<Longrightarrow> r_status res \<noteq> CONFLICT"
  by (auto simp: handleCreate_def createFailed_def result_def split: sum.splits prod.splits)

lemma handleUpdate_conflict:
  assumes "handleUpdate env opId t d s = (Inr res, s')" and "r_status res = CONFLICT"
  shows "\<exists>c. s' = s\<lparr>Conflict := Conflict s @ [c]\<rparr> \<and> operationId c = opId
           \<and> cstatus c = PENDING \<and> conflictId res = Some (cid c)
           \<and> cid c = uuid (map cid (Conflict s))"
  using assms
  by (auto simp: handleUpdate_def result_def conflictResult_def
      split: option.splits sum.splits if_splits prod.splits
      dest!: createConflict_success)

lemma handleDelete_conflict:
  assumes "handleDelete env opId t d s = (Inr res, s')" and "r_status res = CONFLICT"
  shows "\<exists>c. s' = s\<lparr>Conflict := Conflict s @ [c]\<rparr> \<and> operationId c = opId
           \<and> cstatus c = PENDING \<and> conflictId res = Some (cid c)
           \<and> cid c = uuid (map cid (Conflict s))"
  using assms
  by (auto simp: handleDelete_def alreadyDeleted_def result_def conflictResult_def
      split: option.splits sum.splits if_splits prod.splits
      dest!: createConflict_success)

lemma caught_conflict:
  assumes "caught opId out = (res, s')" and "r_status res = CONFLICT"
  shows "out = (Inr res, s')"
  using assms
  by (cases out) (auto simp: caught_def result_def split: sum.splits)

lemma markOperationProcessed_new:
  "opId \<notin> set (map p_operationId (ProcessedOperation s)) \<Longrightarrow>
   markOperationProcessed env opId a t s =
     Inr (s\<lparr>ProcessedOperation := ProcessedOperation s @
               [\<lparr>pid = uuid (map pid (ProcessedOperation s)), p_operationId = opId,
                 p_action = a, p_tableName = t, processedAt = now env\<rparr>]\<rparr>)"
  by (simp add: markOperationProcessed_def)

text \<open>
  C4. When the result of an operation has status \<open>CONFLICT\<close>, the two record tables
  and the ledger after the operation are those before it, and the conflict table has
  grown by exactly one conflict: it is \<open>PENDING\<close>, carries the operation's
  \<open>operationId\<close>, and the result names its fresh identifier.
\<close>

theorem conflict_result_writes_only_the_conflict:
  assumes "processSingleOperation env x s = (res, s')" and "r_status res = CONFLICT"
  shows "Todo s' = Todo s \<and> Note s' = Note s
         \<and> ProcessedOperation s' = ProcessedOperation s
         \<and> (\<exists>c. Conflict s' = Conflict s @ [c] \<and> operationId c = op_operationId x
                \<and> cstatus c = PENDING \<and> conflictId res = Some (cid c)
                \<and> cid c \<notin> set (map cid (Conflict s)))"
proof -
  from assms have nd: "\<not> conflictExists s (op_operationId x)"
    by (auto simp: processSingleOperation_def result_def)
  have "\<exists>c. s' = s\<lparr>Conflict := Conflict s @ [c]\<rparr> \<and> operationId c = op_operationId x
           \<and> cstatus c = PENDING \<and> conflictId res = Some (cid c)
           \<and> cid c = uuid (map cid (Conflict s))"
  proof (cases "action x")
    case CREATE
    with assms nd show ?thesis
      by (auto simp: processSingleOperation_def dest: handleCreate_status)
  next
    case UPDATE
    with assms(1) nd have
      "caught (op_operationId x) (handleUpdate env (op_operationId x) (table x) (data x) s)
         = (res, s')"
      by (simp add: processSingleOperation_def)
    from caught_conflict [OF this assms(2)] assms(2) show ?thesis
      by (rule handleUpdate_conflict)
  next
    case DELETE
    with assms(1) nd have
      "caught (op_operationId x) (handleDelete env (op_operationId x) (table x) (data x) s)
         = (res, s')"
      by (simp add: processSingleOperation_def)
    from caught_conflict [OF this assms(2)] assms(2) show ?thesis
      by (rule handleDelete_conflict)
  qed
  then obtain c where c: "s' = s\<lparr>Conflict := Conflict s @ [c]\<rparr>"
    "operationId c = op_operationId x" "cstatus c = PENDING" "conflictId res = Some (cid c)"
    "cid c = uuid (map cid (Conflict s))"
    by blast
  from c(5) have "cid c \<notin> set (map cid (Conflict s))"
    by (simp only: uuid_fresh not_False_eq_True)
  with c show ?thesis by auto
qed

theorem conflict_result_writes_only_the_conflict_witness:
  "r_status (fst (processSingleOperation exampleEnv updateStale milkDb)) = CONFLICT
   \<and> Todo staleDb = Todo milkDb \<and> Note staleDb = Note milkDb
   \<and> ProcessedOperation staleDb = ProcessedOperation milkDb
   \<and> (\<exists>c. Conflict staleDb = Conflict milkDb @ [c] \<and> operationId c = o2
          \<and> cstatus c = PENDING
          \<and> conflictId (fst (processSingleOperation exampleEnv updateStale milkDb)) = Some (cid c)
          \<and> cid c \<notin> set (map cid (Conflict milkDb)))"
proof -
  have a: "r_status (fst (processSingleOperation exampleEnv updateStale milkDb)) = CONFLICT"
    by (simp add: updateStale_def milkDb_def milk_def ev)
  have b: "processSingleOperation exampleEnv updateStale milkDb =
             (fst (processSingleOperation exampleEnv updateStale milkDb), staleDb)"
    by (simp add: staleDb_def)
  have c: "op_operationId updateStale = o2"
    by (simp add: updateStale_def)
  from conflict_result_writes_only_the_conflict [OF b a] a c show ?thesis
    by simp
qed

text \<open>
  C5, as stated, fails on two guards that stand before the lookup. A \<open>DELETE\<close> of an
  absent record whose payload has no \<open>version\<close> passes the schema and is answered
  \<open>ERROR\<close> "Missing id or version in delete data"; a \<open>DELETE\<close> of an absent
  record whose \<open>operationId\<close> is in the ledger is answered \<open>ERROR\<close> "Operation
  already processed". Neither writes a ledger entry.
\<close>

theorem delete_of_absent_record_counterexample:
  "action deleteNoVersion = DELETE
   \<and> jget ''id'' (data deleteNoVersion) = Some (JStr ''t99'')
   \<and> findUnique (rowsOf emptyDb (table deleteNoVersion)) ''t99'' = None
   \<and> processSingleOperation exampleEnv deleteNoVersion emptyDb =
        (\<lparr>r_operationId = o3, r_status = ERROR,
          message = Some ''Missing id or version in delete data'', r_data = None,
          conflictId = None\<rparr>, emptyDb)
   \<and> ProcessedOperation emptyDb = []
   \<and> action deleteGhost = DELETE
   \<and> findUnique (rowsOf afterDelete (table deleteGhost)) ''t99'' = None
   \<and> processSingleOperation exampleEnv deleteGhost afterDelete =
        (\<lparr>r_operationId = o3, r_status = ERROR,
          message = Some ''Operation already processed'', r_data = None,
          conflictId = None\<rparr>, afterDelete)
   \<and> map p_operationId (ProcessedOperation afterDelete) = [o3]"
  by (simp add: deleteNoVersion_def deleteGhost_def afterDelete_def emptyDb_def ev)

text \<open>
  C5, amended. A \<open>DELETE\<close> that carries a non-empty text \<open>id\<close> and a \<open>version\<close>,
  whose \<open>operationId\<close> is not in the ledger, and whose target is absent or already a
  tombstone, is \<open>APPLIED\<close> with the message "Record already deleted"; the ledger
  gains one entry for its \<open>operationId\<close>, and the record tables and the conflict
  table are unchanged.
\<close>

theorem delete_of_absent_or_tombstoned_is_applied:
  assumes "action x = DELETE"
    and "op_operationId x \<notin> set (map p_operationId (ProcessedOperation s))"
    and "jget ''id'' (data x) = Some (JStr i)" and "i \<noteq> []"
    and "jget ''version'' (data x) = Some cv"
    and "findUnique (rowsOf s (table x)) i = None
         \<or> (\<exists>r. findUnique (rowsOf s (table x)) i = Some r \<and> deletedAt r \<noteq> None)"
  shows "processSingleOperation env x s =
           (\<lparr>r_operationId = op_operationId x, r_status = APPLIED,
             message = Some ''Record already deleted'', r_data = None, conflictId = None\<rparr>,
            s\<lparr>ProcessedOperation := ProcessedOperation s @
                 [\<lparr>pid = uuid (map pid (ProcessedOperation s)),
                   p_operationId = op_operationId x, p_action = DELETE,
                   p_tableName = table x, processedAt = now env\<rparr>]\<rparr>)"
proof -
  from assms(2) have nd: "\<not> conflictExists s (op_operationId x)"
    by (simp add: conflictExists_def operationExists_iff)
  have ad: "alreadyDeleted env (op_operationId x) (table x) s =
      (Inr (result (op_operationId x) APPLIED ''Record already deleted''),
       s\<lparr>ProcessedOperation := ProcessedOperation s @
                 [\<lparr>pid = uuid (map pid (ProcessedOperation s)),
                   p_operationId = op_operationId x, p_action = DELETE,
                   p_tableName = table x, processedAt = now env\<rparr>]\<rparr>)"
    by (simp add: alreadyDeleted_def markOperationProcessed_new [OF assms(2)])
  from assms(3-6) have
    "handleDelete env (op_operationId x) (table x) (data x) s =
       alreadyDeleted env (op_operationId x) (table x) s"
    by (auto simp: handleDelete_def findRecordById_def)
  with ad nd assms(1) show ?thesis
    by (simp add: processSingleOperation_def caught_def result_def)
qed

theorem delete_of_absent_or_tombstoned_is_applied_witness:
  "action deleteGhost = DELETE
   \<and> op_operationId deleteGhost \<notin> set (map p_operationId (ProcessedOperation emptyDb))
   \<and> jget ''id'' (data deleteGhost) = Some (JStr ''t99'')
   \<and> jget ''version'' (data deleteGhost) = Some (JNum 1)
   \<and> findUnique (rowsOf emptyDb (table deleteGhost)) ''t99'' = None
   \<and> processSingleOperation exampleEnv deleteGhost emptyDb =
        (\<lparr>r_operationId = o3, r_status = APPLIED,
          message = Some ''Record already deleted'', r_data = None, conflictId = None\<rparr>,
         \<lparr>Todo = [], Note = [], Conflict = [],
          ProcessedOperation = [\<lparr>pid = ''u'', p_operationId = o3, p_action = DELETE,
                                  p_tableName = Notes, processedAt = clock\<rparr>]\<rparr>)
   \<and> action deleteGone = DELETE
   \<and> findUnique (rowsOf goneDb (table deleteGone)) ''t1'' = Some gone
   \<and> deletedAt gone \<noteq> None
   \<and> processSingleOperation exampleEnv deleteGone goneDb =
        (\<lparr>r_operationId = o3, r_status = APPLIED,
          message = Some ''Record already deleted'', r_data = None, conflictId = None\<rparr>,
         \<lparr>Todo = [gone], Note = [], Conflict = [],
          ProcessedOperation = [\<lparr>pid = ''u'', p_operationId = o3, p_action = DELETE,
                                  p_tableName = Todos, processedAt = clock\<rparr>]\<rparr>)"
proof -
  have a: "action deleteGhost = DELETE" by (simp add: deleteGhost_def)
  have b: "op_operationId deleteGhost \<notin> set (map p_operationId (ProcessedOperation emptyDb))"
    by (simp add: emptyDb_def)
  have c: "jget ''id'' (data deleteGhost) = Some (JStr ''t99'')"
    by (simp add: deleteGhost_def jget_def)
  have d: "''t99'' \<noteq> []" by simp
  have e: "jget ''version'' (data deleteGhost) = Some (JNum 1)"
    by (simp add: deleteGhost_def jget_def)
  have f: "findUnique (rowsOf emptyDb (table deleteGhost)) ''t99'' = None"
    by (simp add: emptyDb_def rowsOf_def findUnique_def)
  then have g: "findUnique (rowsOf emptyDb (table deleteGhost)) ''t99'' = None
      \<or> (\<exists>r. findUnique (rowsOf emptyDb (table deleteGhost)) ''t99'' = Some r
               \<and> deletedAt r \<noteq> None)"
    by simp
  have a': "action deleteGone = DELETE" by (simp add: deleteGone_def)
  have b': "op_operationId deleteGone \<notin> set (map p_operationId (ProcessedOperation goneDb))"
    by (simp add: goneDb_def)
  have c': "jget ''id'' (data deleteGone) = Some (JStr ''t1'')"
    by (simp add: deleteGone_def jget_def)
  have d': "''t1'' \<noteq> []" by simp
  have e': "jget ''version'' (data deleteGone) = Some (JNum 2)"
    by (simp add: deleteGone_def jget_def)
  have f': "findUnique (rowsOf goneDb (table deleteGone)) ''t1'' = Some gone"
    by (simp add: deleteGone_def goneDb_def gone_def milk_def rowsOf_def findUnique_def)
  have h': "deletedAt gone \<noteq> None" by (simp add: gone_def)
  from f' h' have g': "findUnique (rowsOf goneDb (table deleteGone)) ''t1'' = None
      \<or> (\<exists>r. findUnique (rowsOf goneDb (table deleteGone)) ''t1'' = Some r
               \<and> deletedAt r \<noteq> None)"
    by simp
  from delete_of_absent_or_tombstoned_is_applied [where env = exampleEnv, OF a b c d e g]
    delete_of_absent_or_tombstoned_is_applied [where env = exampleEnv, OF a' b' c' d' e' g']
    a b c e f a' f' h'
  show ?thesis
    by (simp add: deleteGhost_def deleteGone_def emptyDb_def goneDb_def uuid_def exampleEnv_def)
qed

text \<open>
  C6, as stated, fails for an \<open>UPDATE\<close> of an absent record that is submitted a second
  time: the conflict of the first submission holds the unique \<open>operationId\<close>, the
  ledger does not know the operation, \<open>prisma.conflict.create\<close> throws, and the result
  is \<open>ERROR\<close> "Internal server error" with no conflict created.
\<close>

theorem update_of_absent_record_counterexample:
  "action updateGhost = UPDATE
   \<and> jget ''id'' (data updateGhost) = Some (JStr ''t99'')
   \<and> jget ''version'' (data updateGhost) = Some (JNum 1)
   \<and> findUnique (rowsOf ghostDb (table updateGhost)) ''t99'' = None
   \<and> op_operationId updateGhost \<notin> set (map p_operationId (ProcessedOperation ghostDb))
   \<and> r_status (fst (processSingleOperation exampleEnv updateGhost ghostDb)) = ERROR
   \<and> message (fst (processSingleOperation exampleEnv updateGhost ghostDb))
        = Some ''Internal server error''
   \<and> conflictId (fst (processSingleOperation exampleEnv updateGhost ghostDb)) = None
   \<and> snd (processSingleOperation exampleEnv updateGhost ghostDb) = ghostDb"
  by (simp add: ghostDb_def updateGhost_def emptyDb_def ev)

text \<open>
  C6, amended. An \<open>UPDATE\<close> that carries a non-empty text \<open>id\<close> and a 32-bit
  integer \<open>version\<close>, whose \<open>operationId\<close> is neither in the ledger nor on a stored
  conflict, and whose \<open>id\<close> names no record of the target table, has the result
  \<open>CONFLICT\<close> with the identifier of the new conflict; exactly one conflict is added,
  with \<open>serverData = null\<close>, \<open>serverVersion = 0\<close>, \<open>clientVersion\<close> the
  operation's version and status \<open>PENDING\<close>, and nothing else is written.
\<close>

theorem update_of_absent_record_creates_conflict:
  assumes "action x = UPDATE"
    and "op_operationId x \<notin> set (map p_operationId (ProcessedOperation s))"
    and "op_operationId x \<notin> set (map operationId (Conflict s))"
    and "jget ''id'' (data x) = Some (JStr i)" and "i \<noteq> []"
    and "jget ''version'' (data x) = Some (JNum n)" and "int32 n"
    and "findUnique (rowsOf s (table x)) i = None"
  shows "processSingleOperation env x s =
           (\<lparr>r_operationId = op_operationId x, r_status = CONFLICT,
             message = Some ''Record not found on server'', r_data = None,
             conflictId = Some (uuid (map cid (Conflict s)))\<rparr>,
            s\<lparr>Conflict := Conflict s @
                 [\<lparr>cid = uuid (map cid (Conflict s)), operationId = op_operationId x,
                   tableName = table x, recordId = i, serverData = None,
                   clientData = data x, serverVersion = 0, clientVersion = n,
                   cstatus = PENDING, resolvedAt = None, resolvedData = None,
                   detectedAt = now env\<rparr>]\<rparr>)"
proof -
  from assms(2) have nd: "\<not> conflictExists s (op_operationId x)"
    by (simp add: conflictExists_def operationExists_iff)
  from assms(3,7) have
    "createConflict env (op_operationId x) (table x) (JStr i) None (data x) 0 (JNum n) s =
       Inr (\<lparr>cid = uuid (map cid (Conflict s)), operationId = op_operationId x,
                   tableName = table x, recordId = i, serverData = None,
                   clientData = data x, serverVersion = 0, clientVersion = n,
                   cstatus = PENDING, resolvedAt = None, resolvedData = None,
                   detectedAt = now env\<rparr>,
            s\<lparr>Conflict := Conflict s @
                 [\<lparr>cid = uuid (map cid (Conflict s)), operationId = op_operationId x,
                   tableName = table x, recordId = i, serverData = None,
                   clientData = data x, serverVersion = 0, clientVersion = n,
                   cstatus = PENDING, resolvedAt = None, resolvedData = None,
                   detectedAt = now env\<rparr>]\<rparr>)"
    by (simp add: createConflict_def Let_def)
  with assms(4-6,8) have
    "handleUpdate env (op_operationId x) (table x) (data x) s =
       (Inr (conflictResult (op_operationId x) ''Record not found on server''
          \<lparr>cid = uuid (map cid (Conflict s)), operationId = op_operationId x,
                   tableName = table x, recordId = i, serverData = None,
                   clientData = data x, serverVersion = 0, clientVersion = n,
                   cstatus = PENDING, resolvedAt = None, resolvedData = None,
                   detectedAt = now env\<rparr>),
        s\<lparr>Conflict := Conflict s @
                 [\<lparr>cid = uuid (map cid (Conflict s)), operationId = op_operationId x,
                   tableName = table x, recordId = i, serverData = None,
                   clientData = data x, serverVersion = 0, clientVersion = n,
                   cstatus = PENDING, resolvedAt = None, resolvedData = None,
                   detectedAt = now env\<rparr>]\<rparr>)"
    by (simp add: handleUpdate_def findRecordById_def)
  with nd assms(1) show ?thesis
    by (simp add: processSingleOperation_def caught_def result_def conflictResult_def)
qed

theorem update_of_absent_record_creates_conflict_witness:
  "action updateGhost = UPDATE
   \<and> op_operationId updateGhost \<notin> set (map p_operationId (ProcessedOperation emptyDb))
   \<and> op_operationId updateGhost \<notin> set (map operationId (Conflict emptyDb))
   \<and> jget ''id'' (data updateGhost) = Some (JStr ''t99'')
   \<and> jget ''version'' (data updateGhost) = Some (JNum 1) \<and> int32 1
   \<and> findUnique (rowsOf emptyDb (table updateGhost)) ''t99'' = None
   \<and> processSingleOperation exampleEnv updateGhost emptyDb =
        (\<lparr>r_operationId = o3, r_status = CONFLICT,
          message = Some ''Record not found on server'', r_data = None,
          conflictId = Some ''u''\<rparr>,
         \<lparr>Todo = [], Note = [],
          Conflict = [\<lparr>cid = ''u'', operationId = o3, tableName = Todos, recordId = ''t99'',
                        serverData = None, clientData = data updateGhost, serverVersion = 0,
                        clientVersion = 1, cstatus = PENDING, resolvedAt = None,
                        resolvedData = None, detectedAt = clock\<rparr>],
          ProcessedOperation = []\<rparr>)"
proof -
  have a: "action updateGhost = UPDATE" by (simp add: updateGhost_def)
  have b: "op_operationId updateGhost \<notin> set (map p_operationId (ProcessedOperation emptyDb))"
    by (simp add: emptyDb_def)
  have c: "op_operationId updateGhost \<notin> set (map operationId (Conflict emptyDb))"
    by (simp add: emptyDb_def)
  have d: "jget ''id'' (data updateGhost) = Some (JStr ''t99'')"
    by (simp add: updateGhost_def jget_def)
  have e: "''t99'' \<noteq> []" by simp
  have f: "jget ''version'' (data updateGhost) = Some (JNum 1)"
    by (simp add: updateGhost_def jget_def)
  have g: "int32 1" by (simp add: int32_def)
  have h: "findUnique (rowsOf emptyDb (table updateGhost)) ''t99'' = None"
    by (simp add: emptyDb_def rowsOf_def findUnique_def)
  from update_of_absent_record_creates_conflict [OF a b c d e f g h, of exampleEnv] a b c d f g h
  show ?thesis
    by (simp add: updateGhost_def emptyDb_def uuid_def exampleEnv_def)
qed

text \<open>
  C9. An \<open>UPDATE\<close> whose target is a tombstone and whose \<open>version\<close> is the
  tombstone's version: the versioned update requires \<open>deletedAt: null\<close>, matches no
  row and returns \<open>null\<close>; the result is \<open>ERROR\<close> and the persisted state is
  unchanged (no record, no ledger entry, no conflict). For an operation that is not a
  replay the message is "Failed to update record (race condition)".
\<close>

theorem update_of_tombstone_at_its_version_is_error:
  assumes "action x = UPDATE"
    and "jget ''id'' (data x) = Some (JStr i)"
    and "findUnique (rowsOf s (table x)) i = Some r" and "deletedAt r \<noteq> None"
    and "jget ''version'' (data x) = Some (JNum (version r))"
  shows "updateRecordWithVersionCheck env (table x) (JStr i) (JNum (version r))
           (omit [''id'', ''version''] (data x)) s = (None, s)
         \<and> r_status (fst (processSingleOperation env x s)) = ERROR
         \<and> snd (processSingleOperation env x s) = s
         \<and> (op_operationId x \<notin> set (map p_operationId (ProcessedOperation s)) \<and> i \<noteq> []
              \<longrightarrow> message (fst (processSingleOperation env x s))
                    = Some ''Failed to update record (race condition)'')"
proof -
  from assms(3,4) have up:
    "updateRecordWithVersionCheck env (table x) (JStr i) (JNum (version r))
           (omit [''id'', ''version''] (data x)) s = (None, s)"
    by (auto simp: updateRecordWithVersionCheck_def update_row_def)
  with assms(2,3,5) have hu:
    "handleUpdate env (op_operationId x) (table x) (data x) s =
       (Inr (result (op_operationId x) ERROR
          (if i = [] then ''Missing id or version in update data''
           else ''Failed to update record (race condition)'')), s)"
    by (simp add: handleUpdate_def findRecordById_def)
  with assms(1) up show ?thesis
    by (simp add: processSingleOperation_def caught_def result_def conflictExists_def
        operationExists_iff)
qed

theorem update_of_tombstone_at_its_version_is_error_witness:
  "action updateGone = UPDATE
   \<and> jget ''id'' (data updateGone) = Some (JStr ''t1'')
   \<and> findUnique (rowsOf goneDb (table updateGone)) ''t1'' = Some gone
   \<and> deletedAt gone \<noteq> None
   \<and> jget ''version'' (data updateGone) = Some (JNum (version gone))
   \<and> op_operationId updateGone \<notin> set (map p_operationId (ProcessedOperation goneDb))
   \<and> processSingleOperation exampleEnv updateGone goneDb =
        (\<lparr>r_operationId = o2, r_status = ERROR,
          message = Some ''Failed to update record (race condition)'', r_data = None,
          conflictId = None\<rparr>, goneDb)"
proof -
  have a: "action updateGone = UPDATE" by (simp add: updateGone_def)
  have b: "jget ''id'' (data updateGone) = Some (JStr ''t1'')"
    by (simp add: updateGone_def jget_def)
  have c: "findUnique (rowsOf goneDb (table updateGone)) ''t1'' = Some gone"
    by (simp add: updateGone_def goneDb_def gone_def milk_def rowsOf_def findUnique_def)
  have d: "deletedAt gone \<noteq> None" by (simp add: gone_def)
  have e: "jget ''version'' (data updateGone) = Some (JNum (version gone))"
    by (simp add: updateGone_def gone_def jget_def)
  have f: "op_operationId updateGone \<notin> set (map p_operationId (ProcessedOperation goneDb))"
    by (simp add: goneDb_def)
  have g: "r_operationId (fst (processSingleOperation exampleEnv updateGone goneDb)) = o2
      \<and> r_data (fst (processSingleOperation exampleEnv updateGone goneDb)) = None
      \<and> conflictId (fst (processSingleOperation exampleEnv updateGone goneDb)) = None"
    by (simp add: updateGone_def goneDb_def gone_def milk_def ev)
  from update_of_tombstone_at_its_version_is_error [OF a b c d e, of exampleEnv] a b c d e f g
  show ?thesis
    by (cases "processSingleOperation exampleEnv updateGone goneDb")
       (auto simp: OperationResult.equality)
qed

section \<open>Resolution of a conflict without a server snapshot\<close>

text \<open>
  C1. The conflict recorded for an update of an absent record has \<open>serverData = null\<close>.
  Resolving a \<open>PENDING\<close> conflict without server snapshot with \<open>SERVER\<close>
  destructures \<open>null\<close> inside the transaction; the \<open>TypeError\<close> is caught, the
  answer is 500 "Failed to resolve conflict", and the persisted state is unchanged: the
  conflict stays \<open>PENDING\<close>, its \<open>resolvedAt\<close> stays \<open>null\<close>. The code does
  not do what the specification asks for here (success, conflict \<open>RESOLVED\<close>).
\<close>

theorem server_resolution_without_snapshot_fails:
  assumes "findById s i = Some c" and "cstatus c = PENDING" and "serverData c = None"
    and "resolution dto = SERVER"
  shows "resolveConflict env i dto s =
           (\<lparr>success = False, sr_message = ''Failed to resolve conflict'',
             responseObject = None, statusCode = 500\<rparr>, s)"
proof -
  from assms(3,4) have "dataToApply c dto = Inr None"
    by (simp add: dataToApply_def)
  moreover have "resolveTransaction env c i None s = Inl TypeError"
    by (simp add: resolveTransaction_def)
  ultimately show ?thesis using assms(1,2)
    by (simp add: resolveConflict_def internalError_def errorResponse_def)
qed

theorem server_resolution_without_snapshot_fails_witness:
  "(\<exists>c. findById ghostDb ''u'' = Some c \<and> cstatus c = PENDING \<and> serverData c = None)
   \<and> resolution resolveServer = SERVER
   \<and> resolveConflict exampleEnv ''u'' resolveServer ghostDb =
        (\<lparr>success = False, sr_message = ''Failed to resolve conflict'',
          responseObject = None, statusCode = 500\<rparr>, ghostDb)
   \<and> map cstatus (Conflict ghostDb) = [PENDING]
   \<and> map resolvedAt (Conflict ghostDb) = [None]"
proof -
  obtain c where a: "findById ghostDb ''u'' = Some c" and b: "cstatus c = PENDING"
    and c: "serverData c = None"
    by (simp add: ghostDb_def updateGhost_def emptyDb_def ev)
  have d: "resolution resolveServer = SERVER" by (simp add: resolveServer_def)
  have e: "map cstatus (Conflict ghostDb) = [PENDING] \<and> map resolvedAt (Conflict ghostDb) = [None]"
    by (simp add: ghostDb_def updateGhost_def emptyDb_def ev)
  from server_resolution_without_snapshot_fails [OF a b c d, of exampleEnv] a b c d e
  show ?thesis by simp
qed

section \<open>Creation of a record\<close>

lemma setField_deletedAt_other:
  "setField env m t k a r = Some r' \<Longrightarrow> k \<noteq> ''deletedAt'' \<Longrightarrow> deletedAt r' = deletedAt r"
  by (auto simp: setField_def split: if_splits)

lemma setField_deletedAt:
  "setField env m t ''deletedAt'' a r = Some r' \<Longrightarrow>
     (if isNullArg a then deletedAt r' = None else dateArg env a \<noteq> None \<and> deletedAt r' = dateArg env a)"
  by (auto simp: setField_def split: if_splits)

lemma setFields_deletedAt:
  "setFields env m t ds r = Some r' \<Longrightarrow>
     (case map_of (rev ds) ''deletedAt'' of
        None \<Rightarrow> deletedAt r' = deletedAt r
      | Some a \<Rightarrow>
          (if isNullArg a then deletedAt r' = None
           else dateArg env a \<noteq> None \<and> deletedAt r' = dateArg env a))"
proof (induction ds arbitrary: r' rule: rev_induct)
  case Nil
  then show ?case by simp
next
  case (snoc kv ds)
  from snoc.prems obtain r1 where
    a: "setFields env m t ds r = Some r1" and b: "setField env m t (fst kv) (snd kv) r1 = Some r'"
    by (auto simp: setFields_append split: option.splits)
  show ?case
  proof (cases "fst kv = ''deletedAt''")
    case True
    with b have "setField env m t ''deletedAt'' (snd kv) r1 = Some r'" by simp
    from setField_deletedAt [OF this] True show ?thesis
      by (cases kv) (auto split: if_splits)
  next
    case False
    with b have "deletedAt r' = deletedAt r1" by (rule setField_deletedAt_other)
    with snoc.IH [OF a] False show ?thesis
      by (cases kv) (auto split: option.splits)
  qed
qed

lemma map_of_filter_other:
  "k \<noteq> k' \<Longrightarrow> map_of (filter (\<lambda>kv. fst kv \<noteq> k') xs) k = map_of xs k"
  by (induction xs) auto

lemma map_of_lit: "map_of (rev (lit d)) k = map_option Val (jget k d)"
  by (induction d rule: rev_induct) (auto simp: lit_def jget_def)

lemma created_fields_deletedAt:
  "map_of (rev (assign ''version'' a (lit d))) ''deletedAt'' = map_option Val (jget ''deletedAt'' d)"
proof -
  have "map_of (rev (assign ''version'' a (lit d))) ''deletedAt''
        = map_of (filter (\<lambda>kv. fst kv \<noteq> ''version'') (rev (lit d))) ''deletedAt''"
    by (simp add: assign_def rev_filter)
  also have "\<dots> = map_of (rev (lit d)) ''deletedAt''"
    by (rule map_of_filter_other) simp
  finally show ?thesis by (simp add: map_of_lit)
qed

lemma createRecord_success:
  assumes "createRecord env t d s = Inr (r, s1)"
  shows "s1 = setRows t (rowsOf s t @ [r]) s \<and> version r = 1
         \<and> (case jget ''deletedAt'' d of
                Some (JStr x) \<Rightarrow> parseDate env x \<noteq> None \<and> deletedAt r = parseDate env x
              | _ \<Rightarrow> deletedAt r = None)"
proof -
  let ?args = "assign ''version'' (Val (JNum 1)) (lit d)"
  from assms obtain
    sf: "setFields env OnCreate t ?args (defaults env t (rowsOf s t)) = Some r"
    and s1: "s1 = setRows t (rowsOf s t @ [r]) s"
    by (auto simp: createRecord_def create_row_def split: sum.splits if_splits option.splits)
  from sf have v: "version r = 1" by (rule setFields_created_version)
  have "deletedAt (defaults env t (rowsOf s t)) = None" by (simp add: defaults_def)
  with setFields_deletedAt [OF sf]
  have "case jget ''deletedAt'' d of
          Some (JStr x) \<Rightarrow> parseDate env x \<noteq> None \<and> deletedAt r = parseDate env x
        | _ \<Rightarrow> deletedAt r = None"
    by (auto simp: created_fields_deletedAt isNullArg_def dateArg_def
        split: option.splits json.splits if_splits)
  with s1 v show ?thesis by simp
qed

lemma rowsOf_ledger_update: "rowsOf (s\<lparr>ProcessedOperation := ps\<rparr>) t = rowsOf s t"
  by (simp add: rowsOf_def)

text \<open>
  C7, as stated, fails for a \<open>CREATE\<close> whose payload carries \<open>version: 7\<close> and a
  \<open>deletedAt\<close> timestamp: \<open>createRecord\<close> spreads the payload into the row and
  overrides \<open>version\<close> only. The operation is \<open>APPLIED\<close>; the record has version 1
  and the \<open>deletedAt\<close> of the payload.
\<close>

theorem created_record_keeps_client_deletedAt_counterexample:
  "action createGone = CREATE
   \<and> jget ''version'' (data createGone) = Some (JNum 7)
   \<and> jget ''deletedAt'' (data createGone) = Some (JStr ''2026-01-01T00:00:00.000Z'')
   \<and> r_status (fst (processSingleOperation exampleEnv createGone emptyDb)) = APPLIED
   \<and> map_option version (r_data (fst (processSingleOperation exampleEnv createGone emptyDb)))
        = Some 1
   \<and> map_option deletedAt (r_data (fst (processSingleOperation exampleEnv createGone emptyDb)))
        = Some (Some ''2026-01-01T00:00:00.000Z'')
   \<and> map deletedAt (Todo (snd (processSingleOperation exampleEnv createGone emptyDb)))
        = [Some ''2026-01-01T00:00:00.000Z'']"
  by (simp add: createGone_def emptyDb_def dates ev)

text \<open>
  C7, amended. For every \<open>CREATE\<close> with result \<open>APPLIED\<close>, the result carries the
  created record, the target table has grown by exactly this record, and the record has
  \<open>version = 1\<close> whatever the payload says about \<open>version\<close>. When the payload
  carries a \<open>deletedAt\<close> text, the text denotes an instant and the record's
  \<open>deletedAt\<close> is this instant; otherwise the record's \<open>deletedAt\<close> is \<open>null\<close>.
\<close>

theorem created_record_version_and_tombstone:
  assumes "action x = CREATE" and "processSingleOperation env x s = (res, s')"
    and "r_status res = APPLIED"
  shows "\<exists>r. r_data res = Some r \<and> rowsOf s' (table x) = rowsOf s (table x) @ [r]
           \<and> version r = 1
           \<and> (case jget ''deletedAt'' (data x) of
                  Some (JStr d) \<Rightarrow> parseDate env d \<noteq> None \<and> deletedAt r = parseDate env d
                | _ \<Rightarrow> deletedAt r = None)"
proof -
  from assms have hc: "handleCreate env (op_operationId x) (table x) (data x) s = (res, s')"
    by (auto simp: processSingleOperation_def result_def split: if_splits)
  with assms(3) obtain r s1 where
    cr: "createRecord env (table x) (data x) s = Inr (r, s1)"
    and mk: "markOperationProcessed env (op_operationId x) CREATE (table x) s1 = Inr s'"
    and res: "r_data res = Some r"
    by (auto simp: handleCreate_def createFailed_def result_def split: sum.splits prod.splits)
  from mk have "rowsOf s' (table x) = rowsOf s1 (table x)"
    by (auto simp: markOperationProcessed_def rowsOf_ledger_update split: if_splits)
  with createRecord_success [OF cr] res show ?thesis
    by (simp add: rowsOf_setRows)
qed

theorem created_record_version_and_tombstone_witness:
  "action createGoneShort = CREATE
   \<and> jget ''version'' (data createGoneShort) = Some (JNum 7)
   \<and> jget ''deletedAt'' (data createGoneShort) = Some (JStr ''2026-01-01T00:00:00Z'')
   \<and> parseDate exampleEnv ''2026-01-01T00:00:00Z'' = Some ''2026-01-01T00:00:00.000Z''
   \<and> r_status (fst (processSingleOperation exampleEnv createGoneShort emptyDb)) = APPLIED
   \<and> (\<exists>r. r_data (fst (processSingleOperation exampleEnv createGoneShort emptyDb)) = Some r
          \<and> rowsOf (snd (processSingleOperation exampleEnv createGoneShort emptyDb)) Todos
              = rowsOf emptyDb Todos @ [r]
          \<and> version r = 1 \<and> deletedAt r = Some ''2026-01-01T00:00:00.000Z'')"
proof -
  have a: "action createGoneShort = CREATE" by (simp add: createGoneShort_def)
  have b: "processSingleOperation exampleEnv createGoneShort emptyDb =
             (fst (processSingleOperation exampleEnv createGoneShort emptyDb),
              snd (processSingleOperation exampleEnv createGoneShort emptyDb))"
    by simp
  have p: "parseDate exampleEnv ''2026-01-01T00:00:00Z'' = Some ''2026-01-01T00:00:00.000Z''"
    by (simp add: exampleEnv_def dates)
  have c: "r_status (fst (processSingleOperation exampleEnv createGoneShort emptyDb)) = APPLIED"
    by (simp add: createGoneShort_def emptyDb_def dates ev)
  have d: "table createGoneShort = Todos
      \<and> jget ''version'' (data createGoneShort) = Some (JNum 7)
      \<and> jget ''deletedAt'' (data createGoneShort) = Some (JStr ''2026-01-01T00:00:00Z'')"
    by (simp add: createGoneShort_def jget_def)
  from created_record_version_and_tombstone [OF a b c] a c d p show ?thesis
    by simp
qed

section \<open>The wire layer\<close>

lemma parseAll_None: "j \<in> set js \<Longrightarrow> SyncOperationSchema j = None \<Longrightarrow> parseAll js = None"
  by (induction js) (auto split: option.splits)

lemma parseAll_Some:
  "\<forall>j\<in>set js. SyncOperationSchema j \<noteq> None \<Longrightarrow>
     \<exists>xs. parseAll js = Some xs \<and> map Some xs = map SyncOperationSchema js"
  by (induction js) (auto split: option.splits)

lemma SyncOperationSchema_uuid:
  assumes "SyncOperationSchema j = Some x"
  shows "\<exists>e. j = JObj e \<and> jget ''operationId'' e = Some (JStr (op_operationId x))
           \<and> isUUID (op_operationId x)"
  using assms
  by (auto simp: SyncOperationSchema_def split: json.splits option.splits if_splits)

lemma handleCreate_id:
  "handleCreate env opId t d s = (res, s') \<Longrightarrow> r_operationId res = opId"
  by (auto simp: handleCreate_def createFailed_def result_def split: sum.splits prod.splits)

lemma handleUpdate_id:
  "handleUpdate env opId t d s = (Inr res, s') \<Longrightarrow> r_operationId res = opId"
  by (auto simp: handleUpdate_def result_def conflictResult_def
      split: option.splits sum.splits if_splits prod.splits)

lemma handleDelete_id:
  "handleDelete env opId t d s = (Inr res, s') \<Longrightarrow> r_operationId res = opId"
  by (auto simp: handleDelete_def alreadyDeleted_def result_def conflictResult_def
      split: option.splits sum.splits if_splits prod.splits)

lemma caught_id:
  assumes "\<And>res s'. out = (Inr res, s') \<Longrightarrow> r_operationId res = opId"
  shows "r_operationId (fst (caught opId out)) = opId"
  using assms by (cases out) (auto simp: caught_def result_def split: sum.splits)

lemma processSingleOperation_id:
  "r_operationId (fst (processSingleOperation env x s)) = op_operationId x"
proof (cases "conflictExists s (op_operationId x)")
  case True
  then show ?thesis by (simp add: processSingleOperation_def result_def)
next
  case False
  show ?thesis
  proof (cases "action x")
    case CREATE
    with False show ?thesis
      by (cases "handleCreate env (op_operationId x) (table x) (data x) s")
        (auto simp: processSingleOperation_def dest: handleCreate_id)
  next
    case UPDATE
    with False show ?thesis
      by (auto simp: processSingleOperation_def intro!: caught_id dest: handleUpdate_id)
  next
    case DELETE
    with False show ?thesis
      by (auto simp: processSingleOperation_def intro!: caught_id dest: handleDelete_id)
  qed
qed

lemma processSyncOperations_ids:
  "map r_operationId (fst (processSyncOperations env xs s)) = map op_operationId xs"
proof (induction xs arbitrary: s)
  case Nil
  then show ?case by simp
next
  case (Cons x xs)
  obtain r s1 where a: "processSingleOperation env x s = (r, s1)"
    by (cases "processSingleOperation env x s")
  obtain rs s2 where b: "processSyncOperations env xs s1 = (rs, s2)"
    by (cases "processSyncOperations env xs s1")
  from processSingleOperation_id [of env x s] a have "r_operationId r = op_operationId x"
    by simp
  moreover from Cons.IH [of s1] b have "map r_operationId rs = map op_operationId xs"
    by simp
  ultimately show ?case using a b by simp
qed

lemmas wire = SyncRequestSchema_def SyncOperationSchema_def OperationActionSchema_def
  TableNameSchema_def isUUID_def isHex_def jget_def sync_def countStatus_def

lemma parse_createMilkJson: "SyncOperationSchema createMilkJson = Some createMilk"
  by (simp add: createMilkJson_def createMilk_def o1_def wire)

text \<open>
  C10. When one element of \<open>operations\<close> has an \<open>operationId\<close> that is not a
  UUID-formatted string, \<open>SyncRequestSchema.parse\<close> throws, the controller answers
  400 "Invalid sync request", and the persisted state is untouched: no operation of the
  batch is processed.
\<close>

theorem batch_with_non_uuid_operation_id_is_rejected:
  assumes "jget ''operations'' d = Some (JArr js)" and "j \<in> set js"
    and "\<And>e u. j = JObj e \<Longrightarrow> jget ''operationId'' e = Some (JStr u) \<Longrightarrow> \<not> isUUID u"
  shows "SyncRequestSchema (JObj d) = None
         \<and> sync env (JObj d) s = (Failed 400 ''Invalid sync request'', s)"
proof -
  have "SyncOperationSchema j = None"
  proof (cases "SyncOperationSchema j")
    case None
    then show ?thesis .
  next
    case (Some x)
    from SyncOperationSchema_uuid [OF this] assms(3) show ?thesis by blast
  qed
  with assms(2) have "parseAll js = None" by (rule parseAll_None)
  with assms(1) have "SyncRequestSchema (JObj d) = None"
    by (simp add: SyncRequestSchema_def)
  then show ?thesis by (simp add: sync_def)
qed

theorem batch_with_non_uuid_operation_id_is_rejected_witness:
  "jget ''operations'' [(''operations'', JArr [createMilkJson, badId])]
     = Some (JArr [createMilkJson, badId])
   \<and> badId \<in> set [createMilkJson, badId]
   \<and> (\<exists>e. badId = JObj e \<and> jget ''operationId'' e = Some (JStr ''o1''))
   \<and> \<not> isUUID ''o1''
   \<and> SyncOperationSchema createMilkJson = Some createMilk
   \<and> SyncRequestSchema mixed = None
   \<and> sync exampleEnv mixed emptyDb = (Failed 400 ''Invalid sync request'', emptyDb)"
proof -
  have a: "jget ''operations'' [(''operations'', JArr [createMilkJson, badId])]
     = Some (JArr [createMilkJson, badId])"
    by (simp add: jget_def)
  have b: "badId \<in> set [createMilkJson, badId]" by simp
  have n: "\<not> isUUID ''o1''" by (simp add: isUUID_def)
  have c: "\<not> isUUID u" if "badId = JObj e" "jget ''operationId'' e = Some (JStr u)" for e u
    using that n by (auto simp: badId_def jget_def)
  have d: "\<exists>e. badId = JObj e \<and> jget ''operationId'' e = Some (JStr ''o1'')"
    by (simp add: badId_def jget_def)
  from batch_with_non_uuid_operation_id_is_rejected [where env = exampleEnv and s = emptyDb, OF a b c] a b d n
  show ?thesis
    by (simp add: mixed_def parse_createMilkJson)
qed

text \<open>
  C8, as stated, fails: the schema has no test of uniqueness. A batch that holds the same
  well-shaped operation twice is parsed, both operations are processed in order (the
  first is \<open>APPLIED\<close>, the second is the replay \<open>ERROR\<close>), and the answer is the
  200 response with two results.
\<close>

theorem duplicate_operation_ids_counterexample:
  "SyncRequestSchema twice = Some [createMilk, createMilk]
   \<and> map op_operationId [createMilk, createMilk] = [o1, o1]
   \<and> (case fst (sync exampleEnv twice emptyDb) of
         Completed rs n a c e \<Rightarrow> map r_status rs = [APPLIED, ERROR] \<and> n = 2
       | Failed code msg \<Rightarrow> False)
   \<and> map rid (Todo (snd (sync exampleEnv twice emptyDb))) = [''t1'']"
proof -
  have p: "SyncRequestSchema twice = Some [createMilk, createMilk]"
    by (simp add: twice_def SyncRequestSchema_def jget_def parse_createMilkJson)
  have i: "map op_operationId [createMilk, createMilk] = [o1, o1]"
    by (simp add: createMilk_def)
  have r: "map r_status (fst (processSyncOperations exampleEnv [createMilk, createMilk] emptyDb))
             = [APPLIED, ERROR]
           \<and> map rid (Todo (snd (processSyncOperations exampleEnv [createMilk, createMilk] emptyDb)))
             = [''t1'']"
    by (simp add: createMilk_def emptyDb_def ev split: prod.splits)
  from p i r show ?thesis
    by (auto simp: sync_def split: prod.splits)
qed

text \<open>
  C8, amended. The wire layer decides on the length of the batch and on the shape of each
  operation only: a batch of 1 to 100 well-shaped operations is parsed whether or not
  two of them share an \<open>operationId\<close>, every operation is handed to the sync
  processor in order, and the answer is the 200 response with one result per operation,
  each carrying the \<open>operationId\<close> of its operation.
\<close>

theorem well_shaped_batch_is_dispatched:
  assumes "jget ''operations'' d = Some (JArr js)"
    and "1 \<le> length js" and "length js \<le> 100"
    and "\<forall>j\<in>set js. SyncOperationSchema j \<noteq> None"
  shows "\<exists>xs rs s'. SyncRequestSchema (JObj d) = Some xs
           \<and> map Some xs = map SyncOperationSchema js
           \<and> processSyncOperations env xs s = (rs, s')
           \<and> map r_operationId rs = map op_operationId xs
           \<and> sync env (JObj d) s =
               (Completed rs (length js) (countStatus APPLIED rs) (countStatus CONFLICT rs)
                  (countStatus ERROR rs), s')"
proof -
  from parseAll_Some [OF assms(4)] obtain xs where
    xs: "parseAll js = Some xs" "map Some xs = map SyncOperationSchema js"
    by blast
  from xs(2) have len: "length xs = length js"
    by (metis length_map)
  from assms(2) have "js \<noteq> []" by auto
  with assms(1,3) xs(1) have p: "SyncRequestSchema (JObj d) = Some xs"
    by (simp add: SyncRequestSchema_def)
  obtain rs s' where r: "processSyncOperations env xs s = (rs, s')"
    by (cases "processSyncOperations env xs s")
  from processSyncOperations_ids [of env xs s] r have ids:
    "map r_operationId rs = map op_operationId xs"
    by simp
  then have "length rs = length js" using len by (metis length_map)
  with p r have "sync env (JObj d) s =
               (Completed rs (length js) (countStatus APPLIED rs) (countStatus CONFLICT rs)
                  (countStatus ERROR rs), s')"
    by (simp add: sync_def)
  with p xs(2) r ids show ?thesis by blast
qed

theorem well_shaped_batch_is_dispatched_witness:
  "jget ''operations'' [(''operations'', JArr [createMilkJson, createMilkJson])]
     = Some (JArr [createMilkJson, createMilkJson])
   \<and> 1 \<le> length [createMilkJson, createMilkJson]
   \<and> length [createMilkJson, createMilkJson] \<le> 100
   \<and> SyncOperationSchema createMilkJson = Some createMilk
   \<and> (\<exists>rs s'. processSyncOperations exampleEnv [createMilk, createMilk] emptyDb = (rs, s')
         \<and> map r_operationId rs = [o1, o1]
         \<and> sync exampleEnv twice emptyDb =
             (Completed rs 2 (countStatus APPLIED rs) (countStatus CONFLICT rs)
                (countStatus ERROR rs), s'))"
proof -
  have a: "jget ''operations'' [(''operations'', JArr [createMilkJson, createMilkJson])]
     = Some (JArr [createMilkJson, createMilkJson])"
    by (simp add: jget_def)
  have b: "1 \<le> length [createMilkJson, createMilkJson]" by simp
  have c: "length [createMilkJson, createMilkJson] \<le> 100" by simp
  have d: "\<forall>j\<in>set [createMilkJson, createMilkJson]. SyncOperationSchema j \<noteq> None"
    by (simp add: parse_createMilkJson)
  have e: "op_operationId createMilk = o1" by (simp add: createMilk_def)
  from well_shaped_batch_is_dispatched [where env = exampleEnv and s = emptyDb, OF a b c d] a b c e
  show ?thesis
    by (auto simp: parse_createMilkJson twice_def)
qed

end
